theory Spec2Isabelle
  imports Complex_Main
begin

section \<open>Python values, errors and the effects of a training run\<close>

text \<open>
  The development embeds \<^verbatim>\<open>hyperpose/Model/openpose/train.py\<close>. Python integers are
  \<^typ>\<open>int\<close>, sizes that cannot be negative are \<^typ>\<open>nat\<close>, and learning rates and losses
  are \<^typ>\<open>real\<close> (the rounding of floating point is not modelled). An exception is a value
  of \<open>py_error\<close>; a stateful operation that raises returns \<open>Inl\<close> of the error together with
  the state at the raise.
\<close>

datatype py_error =
  ZeroDivisionError | ValueError | AttributeError | RuntimeError | InvalidArgumentError

datatype optimizer = Opt | OptD

datatype weights = ModelWeights | DiscriminatorWeights

datatype artifact = ModelNpz | DiscriminatorNpz

datatype broadcast = AllWeights | OptimizerVariables

text \<open>
  What a run does to the outside world, in order: log lines with a fixed text, metric
  updates, optimizer updates (\<open>ApplyGradients o w loss rate\<close>: optimizer \<open>o\<close> updates the
  parameters \<open>w\<close> along the gradient of \<open>loss\<close>, reading the learning rate \<open>rate\<close>),
  periodic reports, visualisations, checkpoint saves (with the persisted step counter and
  learning rate), weight files, and KungFu broadcasts.
\<close>

datatype event =
    Log string
  | MetricUpdate string real
  | ApplyGradients optimizer weights real real
  | Report int real
  | Visualize int
  | CkptSave int real
  | SaveWeights artifact
  | BroadcastVariables broadcast

record config =
  n_step :: int
  batch_size :: nat
  lr_init :: real
  lr_decay_factor :: real
  weight_decay_factor :: real
  log_interval :: int
  vis_interval :: int
  save_interval :: int
  domainadapt_flag :: bool

text \<open>
  A batch, as far as a step executor looks at it: the \<open>labeled\<close> flags, the value
  \<open>train_model.cal_loss\<close> returns on it (\<open>total_loss\<close> in \<open>single_train\<close>,
  \<open>pd_loss\<close> in \<open>one_step\<close>), the value of
  \<open>regulize_loss(train_model, weight_decay_factor)\<close> at that step (the
  weight-regularization loss), and \<open>adapt_dis.cal_loss\<close> on its backbone feature as a
  function of the label vector.
\<close>

record batch =
  labeled :: "real list"
  cal_loss :: real
  regulize_loss :: real
  adapt_cal_loss :: "real list \<Rightarrow> real"

text \<open>
  The state of \<open>single_train\<close>: the locals \<open>step\<close> and \<open>lr\<close>, the checkpointed
  variables \<open>save_step\<close> and \<open>save_lr\<close>, the update counters of the two optimizers (the
  rest of an optimizer's state is not modelled), the number of batches pulled from the
  dataset iterator, and the effects so far.
\<close>

record train_state =
  step :: int
  lr :: real
  save_step :: int
  save_lr :: real
  opt_iterations :: nat
  opt_d_iterations :: nat
  pulled :: nat
  trace :: "event list"

type_synonym 'a raising = "(py_error \<times> 'a) + 'a"

definition emit :: "event \<Rightarrow> train_state \<Rightarrow> train_state" where
  "emit e st = st\<lparr>trace := trace st @ [e]\<rparr>"

section \<open>The learning-rate schedule\<close>

definition lr_decay_steps :: "int list" where
  "lr_decay_steps =
     [200000, 300000, 360000, 420000, 480000, 540000, 600000, 700000, 800000, 900000]"

text \<open>\<open>list.index\<close>: the first position of \<open>x\<close>, \<open>None\<close> where Python raises ValueError.\<close>

fun index_of :: "'a list \<Rightarrow> 'a \<Rightarrow> nat option" where
  "index_of [] x = None"
| "index_of (y # ys) x =
     (if y = x then Some 0 else (case index_of ys x of None \<Rightarrow> None | Some i \<Rightarrow> Some (Suc i)))"

text \<open>
  Lines 209-211, run once after the restore: every threshold strictly below the restored
  step multiplies the restored learning rate by the decay factor.
\<close>

definition resume_decay :: "real \<Rightarrow> int \<Rightarrow> real \<Rightarrow> real" where
  "resume_decay factor s rate =
     fold (\<lambda>lr_decay_step r. if s > lr_decay_step then r * factor else r) lr_decay_steps rate"

text \<open>
  Lines 256-259, run in every iteration: at a threshold the local \<open>lr\<close> is recomputed
  from \<open>lr_init\<close>; elsewhere it is left as it is.
\<close>

definition decay_lr :: "config \<Rightarrow> train_state \<Rightarrow> train_state raising" where
  "decay_lr cfg st =
     (if step st \<in> set lr_decay_steps then
        (case index_of lr_decay_steps (step st) of
           None \<Rightarrow> Inl (ValueError, st)
         | Some i \<Rightarrow> Inr (st\<lparr>lr := lr_init cfg * lr_decay_factor cfg ^ (i + 1)\<rparr>))
      else Inr st)"

text \<open>
  The schedule in the specification's words: \<open>lr_init\<close> times one multiplier for every
  threshold that is at most the step.
\<close>

definition spec_lr :: "config \<Rightarrow> int \<Rightarrow> real" where
  "spec_lr cfg s =
     lr_init cfg * lr_decay_factor cfg ^ length (filter (\<lambda>t. t \<le> s) lr_decay_steps)"

section \<open>The training step of \<open>single_train\<close>\<close>

text \<open>
  \<open>tf.GradientTape()\<close> is not persistent: its first \<open>gradient\<close> call releases the
  recording, and a further call raises RuntimeError.
\<close>

record tape =
  persistent :: bool
  released :: bool

definition GradientTape :: tape where
  "GradientTape = \<lparr>persistent = False, released = False\<rparr>"

definition tape_gradient :: "tape \<Rightarrow> py_error + tape" where
  "tape_gradient t =
     (if released t then Inl RuntimeError
      else Inr (if persistent t then t else t\<lparr>released := True\<rparr>))"

text \<open>
  Both optimizers are built with \<open>learning_rate=save_lr\<close>, the checkpointed variable, so
  an update reads the value \<open>save_lr\<close> holds when it is applied.
\<close>

definition apply_gradients :: "optimizer \<Rightarrow> weights \<Rightarrow> real \<Rightarrow> train_state \<Rightarrow> train_state" where
  "apply_gradients opt w loss st =
     emit (ApplyGradients opt w loss (save_lr st))
       (case opt of
          Opt \<Rightarrow> st\<lparr>opt_iterations := Suc (opt_iterations st)\<rparr>
        | OptD \<Rightarrow> st\<lparr>opt_d_iterations := Suc (opt_d_iterations st)\<rparr>)"

text \<open>
  The body of \<open>optimize_step\<close> under \<open>with tf.GradientTape() as tape\<close>, for a given tape.
\<close>

definition optimize_step_on :: "tape \<Rightarrow> bool \<Rightarrow> batch \<Rightarrow> train_state \<Rightarrow> train_state raising" where
  "optimize_step_on tape0 flag b st =
     (let total_loss = cal_loss b;
          g_adapt_loss = adapt_cal_loss b (map (\<lambda>l. 1 - l) (labeled b));
          st1 = (if flag then emit (MetricUpdate ''model/adapt_loss'' g_adapt_loss) st else st);
          total_loss = (if flag then total_loss + g_adapt_loss else total_loss)
      in case tape_gradient tape0 of
           Inl e \<Rightarrow> Inl (e, st1)
         | Inr tape1 \<Rightarrow>
             (let st2 = apply_gradients Opt ModelWeights total_loss st1 in
              if flag then
                (let d_adapt_loss = adapt_cal_loss b (labeled b);
                     st3 = emit (MetricUpdate ''dis/adapt_loss'' d_adapt_loss) st2
                 in case tape_gradient tape1 of
                      Inl e \<Rightarrow> Inl (e, st3)
                    | Inr tape2 \<Rightarrow> Inr (apply_gradients Opt DiscriminatorWeights d_adapt_loss st3))
              else Inr st2))"

definition optimize_step :: "bool \<Rightarrow> batch \<Rightarrow> train_state \<Rightarrow> train_state raising" where
  "optimize_step flag b st = optimize_step_on GradientTape flag b st"

section \<open>The loop of \<open>single_train\<close>\<close>

text \<open>
  \<open>step\<close> is the NumPy scalar \<open>save_step.numpy()\<close>; its remainder by zero is 0 (with a
  warning), not an exception. Its 32-bit range is not modelled.
\<close>

definition np_mod :: "int \<Rightarrow> int \<Rightarrow> int" where
  "np_mod a b = (if b = 0 then 0 else a mod b)"

definition periodic_log :: "config \<Rightarrow> train_state \<Rightarrow> train_state" where
  "periodic_log cfg st =
     (if step st \<noteq> 0 \<and> np_mod (step st) (log_interval cfg) = 0
      then emit (Report (step st) (lr st)) st else st)"

definition periodic_vis :: "config \<Rightarrow> train_state \<Rightarrow> train_state" where
  "periodic_vis cfg st =
     (if step st \<noteq> 0 \<and> np_mod (step st) (vis_interval cfg) = 0
      then emit (Visualize (step st)) (emit (Log ''Visualizing prediction maps and target maps'') st)
      else st)"

definition periodic_save :: "config \<Rightarrow> train_state \<Rightarrow> train_state" where
  "periodic_save cfg st =
     (if step st \<noteq> 0 \<and> np_mod (step st) (save_interval cfg) = 0 then
        (let st1 = emit (Log ''saving model ckpt and result...'') st;
             st2 = st1\<lparr>save_step := step st1, save_lr := lr st1\<rparr>;
             st3 = emit (CkptSave (save_step st2) (save_lr st2)) st2;
             st4 = emit (SaveWeights ModelNpz) st3
         in if domainadapt_flag cfg then emit (SaveWeights DiscriminatorNpz) st4 else st4)
      else st)"

definition train_iteration :: "config \<Rightarrow> (nat \<Rightarrow> batch) \<Rightarrow> train_state \<Rightarrow> train_state raising" where
  "train_iteration cfg batches st =
     (let st1 = st\<lparr>step := step st + 1\<rparr>;
          b = batches (pulled st1);
          st2 = st1\<lparr>pulled := Suc (pulled st1)\<rparr>
      in case decay_lr cfg st2 of
           Inl e \<Rightarrow> Inl e
         | Inr st3 \<Rightarrow>
             (case optimize_step (domainadapt_flag cfg) b st3 of
                Inl e \<Rightarrow> Inl e
              | Inr st4 \<Rightarrow> Inr (periodic_save cfg (periodic_vis cfg (periodic_log cfg st4)))))"

text \<open>
  A \<open>for\<close> loop over a range whose variable the body does not read (\<open>epoch_idx\<close> and
  \<open>epoch_step\<close> only appear in log texts): the body, so many times, until it raises.
\<close>

fun repeat_steps :: "nat \<Rightarrow> ('s \<Rightarrow> 's raising) \<Rightarrow> 's \<Rightarrow> 's raising" where
  "repeat_steps 0 body st = Inr st"
| "repeat_steps (Suc n) body st =
     (case body st of Inl e \<Rightarrow> Inl e | Inr st' \<Rightarrow> repeat_steps n body st')"

section \<open>Start-up of \<open>single_train\<close>\<close>

record checkpoint =
  ck_step :: int
  ck_lr :: real
  ck_opt :: nat
  ck_opt_d :: nat

text \<open>
  What \<open>ckpt.restore(ckpt_manager.latest_checkpoint)\<close> does: it restores a checkpoint,
  or finds none (\<open>latest_checkpoint\<close> is \<open>None\<close> and nothing is assigned), or raises.
\<close>

datatype restore_outcome = Restored checkpoint | NothingToRestore | RestoreRaises

record disk =
  latest_checkpoint :: restore_outcome
  pretrained_backbone :: bool
  newest_model :: bool
  newest_discriminator :: bool

definition ckpt_fallback_message :: string where
  "ckpt_fallback_message =
     ''ckpt_path doesn'' @ [CHR 0x27] @ ''t exist, step and optimizer are initialized''"

definition initial_state :: "config \<Rightarrow> train_state" where
  "initial_state cfg =
     \<lparr>step = 1, lr = lr_init cfg, save_step = 1, save_lr = lr_init cfg,
      opt_iterations = 0, opt_d_iterations = 0, pulled = 0, trace = []\<rparr>"

text \<open>
  The checkpoint holds \<open>save_step\<close>, \<open>save_lr\<close> and \<open>opt\<close>, and \<open>opt_d\<close> when domain
  adaptation is enabled. A restore that raises is caught and logged.
\<close>

definition restore_ckpt :: "bool \<Rightarrow> restore_outcome \<Rightarrow> train_state \<Rightarrow> train_state" where
  "restore_ckpt flag r st =
     (let st1 = emit (Log ''loading ckpt...'') st in
      case r of
        Restored ck \<Rightarrow>
          st1\<lparr>save_step := ck_step ck, save_lr := ck_lr ck, opt_iterations := ck_opt ck,
              opt_d_iterations := (if flag then ck_opt_d ck else opt_d_iterations st1)\<rparr>
      | NothingToRestore \<Rightarrow> st1
      | RestoreRaises \<Rightarrow> emit (Log ckpt_fallback_message) st1)"

definition load_weights :: "config \<Rightarrow> disk \<Rightarrow> train_state \<Rightarrow> train_state" where
  "load_weights cfg d st =
     (let st1 = emit (Log ''loading pretrained backbone...'') st;
          st2 = (if pretrained_backbone d then st1
                 else emit (Log (''pretrained backbone doesn'' @ [CHR 0x27] @ ''t exist, model backbone are initialized'')) st1);
          st3 = emit (Log ''loading saved training model weights...'') st2;
          st4 = (if newest_model d then st3
                 else emit (Log (''model_path doesn'' @ [CHR 0x27] @ ''t exist, model parameters are initialized'')) st3)
      in if domainadapt_flag cfg then
           (let st5 = emit (Log ''loading saved domain adaptation discriminator weight...'') st4
            in if newest_discriminator d then st5
               else emit (Log (''discriminator path doesn'' @ [CHR 0x27] @ ''t exist, discriminator parameters are initialized'')) st5)
         else st4)"

definition startup :: "config \<Rightarrow> disk \<Rightarrow> train_state" where
  "startup cfg d =
     (let st0 = initial_state cfg;
          st1 = (if domainadapt_flag cfg then emit (Log ''domain adaptaion enabled!'') st0 else st0);
          st2 = restore_ckpt (domainadapt_flag cfg) (latest_checkpoint d) st1;
          st3 = load_weights cfg d st2;
          st4 = st3\<lparr>step := save_step st3, lr := save_lr st3\<rparr>
      in st4\<lparr>lr := resume_decay (lr_decay_factor cfg) (step st4) (lr st4)\<rparr>)"

definition single_train :: "config \<Rightarrow> nat \<Rightarrow> disk \<Rightarrow> (nat \<Rightarrow> batch) \<Rightarrow> train_state raising" where
  "single_train cfg datasize d batches =
     (if batch_size cfg = 0 then Inl (ZeroDivisionError, initial_state cfg)
      else
        (let epoch_size = datasize div batch_size cfg in
         if epoch_size = 0 then Inl (ZeroDivisionError, initial_state cfg)
         else
           (let total_epoch = n_step cfg div int epoch_size;
                st = startup cfg d;
                cur_epoch = step st div int epoch_size + 1
            in repeat_steps (nat (total_epoch - cur_epoch))
                 (repeat_steps epoch_size (train_iteration cfg batches)) st)))"

section \<open>The batch pipelines\<close>

text \<open>
  A dataset is the list of its samples in enumeration order. \<open>shuffle(buffer_size=4096)\<close> is
  called without a seed, so every process and every pass draws an order of its own: the
  order of pass \<open>p\<close> is a parameter \<open>order p\<close>. \<open>shard(num_shards, index)\<close> keeps the
  elements whose position is \<open>index\<close> modulo \<open>num_shards\<close>.
\<close>

definition shard :: "nat \<Rightarrow> nat \<Rightarrow> 'a list \<Rightarrow> 'a list" where
  "shard num_shards index xs =
     map (\<lambda>i. xs ! i) (filter (\<lambda>i. i mod num_shards = index) [0..<length xs])"

text \<open>
  \<open>_map_fn\<close> returns the tuple \<open>image, mask, target_x, labeled\<close>, and \<open>batch\<close> stacks each
  component: a dataset element is a tuple of four tensors, here over the samples stacked.
\<close>

datatype 'a tensor = Image "'a list" | Mask "'a list" | TargetX "'a list" | Labeled "'a list"

definition batch_element :: "'a list \<Rightarrow> 'a tensor list" where
  "batch_element samples = [Image samples, Mask samples, TargetX samples, Labeled samples]"

text \<open>
  \<open>shuffle\<close>, \<open>shard\<close>, \<open>repeat\<close>, \<open>map\<close>, \<open>batch\<close> of \<open>parallel_train\<close>: the passes follow one
  another, each sharded after its shuffle, and batches are cut across pass boundaries. A
  worker whose shard is empty gets an empty dataset (\<open>None\<close>); otherwise element \<open>k\<close> of
  the unbounded dataset is defined for every \<open>k\<close>.
\<close>

definition sample_at :: "nat \<Rightarrow> nat \<Rightarrow> (nat \<Rightarrow> 'a list) \<Rightarrow> nat \<Rightarrow> 'a" where
  "sample_at num_shards index order q =
     (let m = length (shard num_shards index (order 0))
      in shard num_shards index (order (q div m)) ! (q mod m))"

definition parallel_dataset ::
  "nat \<Rightarrow> nat \<Rightarrow> nat \<Rightarrow> (nat \<Rightarrow> 'a list) \<Rightarrow> (nat \<Rightarrow> 'a tensor list) option" where
  "parallel_dataset num_shards index bs order =
     (if shard num_shards index (order 0) = [] then None
      else Some (\<lambda>k. batch_element (map (sample_at num_shards index order) [k * bs..<k * bs + bs])))"

section \<open>\<open>parallel_train\<close>\<close>

record parallel_config =
  total_step :: int
  p_batch_size :: nat
  p_lr_init :: real
  p_lr_decay_factor :: real
  p_log_interval :: int
  p_save_interval :: int

record kungfu =
  current_cluster_size :: nat
  current_rank :: nat

text \<open>
  What the name \<open>step\<close> is bound to: the \<open>tf.Variable\<close> of line 369 (whose value is the
  field \<open>step_variable\<close>), or a plain integer. Likewise \<open>lr\<close>: the variable of line 370,
  which the optimizer reads, or a plain float.
\<close>

datatype step_binding = StepVariable | PyInt int

datatype lr_binding = LrVariable | PyFloat real

record parallel_state =
  step_name :: step_binding
  step_variable :: int
  lr_name :: lr_binding
  lr_variable :: real
  decay_steps :: "int list"
  p_total_step :: int
  p_trace :: "event list"

definition p_emit :: "event \<Rightarrow> parallel_state \<Rightarrow> parallel_state" where
  "p_emit e st = st\<lparr>p_trace := p_trace st @ [e]\<rparr>"

definition step_value :: "parallel_state \<Rightarrow> int" where
  "step_value st = (case step_name st of StepVariable \<Rightarrow> step_variable st | PyInt n \<Rightarrow> n)"

text \<open>
  Lines 409-410: \<open>for step_idx, step in enumerate(lr_decay_steps)\<close> binds the name
  \<open>step\<close> to each threshold in turn and overwrites that position of the list.
\<close>

fun rescale_loop :: "nat \<Rightarrow> nat \<Rightarrow> nat \<Rightarrow> parallel_state \<Rightarrow> parallel_state" where
  "rescale_loop w 0 step_idx st = st"
| "rescale_loop w (Suc n) step_idx st =
     rescale_loop w n (Suc step_idx)
       (st\<lparr>step_name := PyInt (decay_steps st ! step_idx),
           decay_steps := (decay_steps st)[step_idx := (decay_steps st ! step_idx) div int w + 1]\<rparr>)"

text \<open>Lines 319-376: the locals and the two variables as they are created.\<close>

definition initial_parallel_state :: "parallel_config \<Rightarrow> parallel_state" where
  "initial_parallel_state cfg =
     \<lparr>step_name = StepVariable, step_variable = 1, lr_name = LrVariable,
      lr_variable = p_lr_init cfg, decay_steps = lr_decay_steps,
      p_total_step = total_step cfg, p_trace = []\<rparr>"

text \<open>
  Lines 378-410: the restore of step, optimizer and rate, then the division of the step
  budget and of the thresholds by the cluster size. (The loading of weights and the choice
  of the KungFu optimizer leave the state modelled here as it is.)
\<close>

definition parallel_setup :: "parallel_config \<Rightarrow> kungfu \<Rightarrow> restore_outcome \<Rightarrow> parallel_state raising" where
  "parallel_setup cfg kf r =
     (let st0 = initial_parallel_state cfg;
          st1 = p_emit (Log ''loading ckpt...'') st0;
          st2 = (case r of
                   Restored ck \<Rightarrow> st1\<lparr>step_variable := ck_step ck, lr_variable := ck_lr ck\<rparr>
                 | NothingToRestore \<Rightarrow> st1
                 | RestoreRaises \<Rightarrow>
                     p_emit (Log ckpt_fallback_message) st1)
      in if current_cluster_size kf = 0 then Inl (ZeroDivisionError, st2)
         else
           (let st3 = st2\<lparr>p_total_step := p_total_step st2 div int (current_cluster_size kf) + 1\<rparr>
            in Inr (rescale_loop (current_cluster_size kf) (length (decay_steps st3)) 0 st3)))"

text \<open>
  \<open>one_step\<close> reads the name \<open>step\<close> of the enclosing function when it is called:
  \<open>assign_add\<close> exists on the variable only.
\<close>

definition one_step :: "batch \<Rightarrow> bool \<Rightarrow> parallel_state \<Rightarrow> parallel_state raising" where
  "one_step b is_first_batch st =
     (case step_name st of
        PyInt n \<Rightarrow> Inl (AttributeError, st)
      | StepVariable \<Rightarrow>
          (let st1 = st\<lparr>step_variable := step_variable st + 1\<rparr>;
               pd_loss = cal_loss b;
               re_loss = regulize_loss b;
               total_loss = pd_loss + re_loss;
               st2 = p_emit (ApplyGradients Opt ModelWeights total_loss (lr_variable st1)) st1
           in Inr (if is_first_batch
                   then p_emit (BroadcastVariables OptimizerVariables)
                          (p_emit (BroadcastVariables AllWeights) st2)
                   else st2)))"

text \<open>
  The remainder \<open>step % save_interval\<close>: of Python integers (ZeroDivisionError on zero) or
  of a tensor (InvalidArgumentError on zero).
\<close>

definition step_mod :: "parallel_state \<Rightarrow> int \<Rightarrow> py_error + int" where
  "step_mod st m =
     (if m = 0 then
        Inl (case step_name st of PyInt n \<Rightarrow> ZeroDivisionError | StepVariable \<Rightarrow> InvalidArgumentError)
      else Inr (step_value st mod m))"

definition p_periodic_log :: "parallel_config \<Rightarrow> parallel_state \<Rightarrow> parallel_state raising" where
  "p_periodic_log cfg st =
     (case step_name st of
        PyInt n \<Rightarrow> Inl (AttributeError, st)
      | StepVariable \<Rightarrow>
          (if step_variable st \<noteq> 0 \<and> np_mod (step_variable st) (p_log_interval cfg) = 0 then
             (case lr_name st of
                PyFloat x \<Rightarrow> Inl (AttributeError, st)
              | LrVariable \<Rightarrow> Inr (p_emit (Report (step_variable st) (lr_variable st)) st))
           else Inr st))"

definition p_periodic_save :: "parallel_config \<Rightarrow> kungfu \<Rightarrow> parallel_state \<Rightarrow> parallel_state raising" where
  "p_periodic_save cfg kf st =
     (if step_value st \<noteq> 0 then
        (case step_mod st (p_save_interval cfg) of
           Inl e \<Rightarrow> Inl (e, st)
         | Inr r \<Rightarrow>
             (if r = 0 \<and> current_rank kf = 0 then
                Inr (p_emit (SaveWeights ModelNpz)
                      (p_emit (CkptSave (step_variable st) (lr_variable st))
                        (p_emit (Visualize (step_value st))
                          (p_emit (Log ''saving model ckpt and result...'') st))))
              else Inr st))
      else Inr st)"

definition p_decay_lr :: "parallel_config \<Rightarrow> parallel_state \<Rightarrow> parallel_state raising" where
  "p_decay_lr cfg st =
     (if step_value st \<in> set (decay_steps st) then
        (case index_of (decay_steps st) (step_value st) of
           None \<Rightarrow> Inl (ValueError, st)
         | Some i \<Rightarrow> Inr (st\<lparr>lr_name := PyFloat (p_lr_init cfg * p_lr_decay_factor cfg ^ (i + 1))\<rparr>))
      else Inr st)"

text \<open>
  One pass through the body of the loop of line 439, which destructures the dataset element
  into exactly three names. The result says whether the loop goes on (\<open>True\<close>) or breaks.
\<close>

definition parallel_iteration ::
  "parallel_config \<Rightarrow> kungfu \<Rightarrow> 'a tensor list \<Rightarrow> batch \<Rightarrow> parallel_state
     \<Rightarrow> (py_error \<times> parallel_state) + (parallel_state \<times> bool)" where
  "parallel_iteration cfg kf element b st =
     (case element of
        [img, gt_label, msk] \<Rightarrow>
          (case p_decay_lr cfg st of
             Inl e \<Rightarrow> Inl e
           | Inr st1 \<Rightarrow>
               (case one_step b (step_value st1 = 0) st1 of
                  Inl e \<Rightarrow> Inl e
                | Inr st2 \<Rightarrow>
                    (case p_periodic_log cfg st2 of
                       Inl e \<Rightarrow> Inl e
                     | Inr st3 \<Rightarrow>
                         (case p_periodic_save cfg kf st3 of
                            Inl e \<Rightarrow> Inl e
                          | Inr st4 \<Rightarrow> Inr (st4, step_value st4 \<noteq> p_total_step st4)))))
      | _ \<Rightarrow> Inl (ValueError, st))"

text \<open>
  The loop over the unbounded dataset ends by \<open>break\<close> or by an exception only; a run
  that does neither has no result (\<open>None\<close>).
\<close>

partial_function (option) parallel_loop ::
  "parallel_config \<Rightarrow> kungfu \<Rightarrow> (nat \<Rightarrow> 'a tensor list) \<Rightarrow> (nat \<Rightarrow> batch) \<Rightarrow> nat
     \<Rightarrow> parallel_state \<Rightarrow> (parallel_state raising) option" where
  "parallel_loop cfg kf dataset batches k st =
     (case parallel_iteration cfg kf (dataset k) (batches k) st of
        Inl e \<Rightarrow> Some (Inl e)
      | Inr (st', continue) \<Rightarrow>
          if continue then parallel_loop cfg kf dataset batches (Suc k) st' else Some (Inr st'))"

text \<open>
  \<open>parallel_train\<close>. Building the pipeline comes first: \<open>shard\<close> refuses a shard count of
  zero and an index that is not below the count, \<open>batch\<close> refuses a batch size of zero.
\<close>

definition parallel_train ::
  "parallel_config \<Rightarrow> kungfu \<Rightarrow> restore_outcome \<Rightarrow> (nat \<Rightarrow> 'a list) \<Rightarrow> (nat \<Rightarrow> batch)
     \<Rightarrow> (parallel_state raising) option" where
  "parallel_train cfg kf r order batches =
     (if current_cluster_size kf = 0 \<or> current_cluster_size kf \<le> current_rank kf
         \<or> p_batch_size cfg = 0
      then Some (Inl (InvalidArgumentError, initial_parallel_state cfg))
      else
        (case parallel_setup cfg kf r of
           Inl e \<Rightarrow> Some (Inl e)
         | Inr st \<Rightarrow>
             (case parallel_dataset (current_cluster_size kf) (current_rank kf) (p_batch_size cfg) order of
                None \<Rightarrow> Some (Inr st)
              | Some dataset \<Rightarrow> parallel_loop cfg kf dataset batches 0 st)))"

text \<open>The state a run ends in, and the training steps it completed.\<close>

definition final_state :: "'s raising \<Rightarrow> 's" where
  "final_state r = (case r of Inl (e, st) \<Rightarrow> st | Inr st \<Rightarrow> st)"

fun is_update :: "event \<Rightarrow> bool" where
  "is_update (ApplyGradients opt w loss rate) = True"
| "is_update e = False"

fun is_broadcast :: "event \<Rightarrow> bool" where
  "is_broadcast (BroadcastVariables v) = True"
| "is_broadcast e = False"

fun is_ckpt_save :: "event \<Rightarrow> bool" where
  "is_ckpt_save (CkptSave s r) = True"
| "is_ckpt_save e = False"

text \<open>The loss an update differentiates.\<close>

fun optimized_loss :: "event \<Rightarrow> real" where
  "optimized_loss (ApplyGradients opt w loss rate) = loss"
| "optimized_loss e = 0"

text \<open>
  Modelled from the spec: \<open>cal_loss\<close> of the model class, in the form \<open>single_train\<close>
  calls it (\<open>predict_x\<close>, \<open>target_x\<close>, \<open>mask\<close>, \<open>metric_manager\<close>); the class is not among
  the source files. The step of \<open>single_train\<close> computes no loss of its own, and by
  section 4.5 of the specification the total of a step is the task loss plus the
  weight-regularization loss: the \<open>total_loss\<close> this call returns is their sum.
\<close>

definition model_cal_loss :: "real \<Rightarrow> real \<Rightarrow> real" where
  "model_cal_loss task_loss re_loss = task_loss + re_loss"

text \<open>
  The batches of a run of \<open>single_train\<close>, given the task loss, the regularization loss,
  the labels and the discriminator's loss function at every step.
\<close>

definition model_batches ::
  "(nat \<Rightarrow> real) \<Rightarrow> (nat \<Rightarrow> real) \<Rightarrow> (nat \<Rightarrow> real list) \<Rightarrow> (nat \<Rightarrow> real list \<Rightarrow> real)
     \<Rightarrow> nat \<Rightarrow> batch" where
  "model_batches task_loss re_loss labels adapt k =
     \<lparr>labeled = labels k, cal_loss = model_cal_loss (task_loss k) (re_loss k),
      regulize_loss = re_loss k, adapt_cal_loss = adapt k\<rparr>"

section \<open>\<open>_data_aug_fn\<close>\<close>

text \<open>
  Arrays are nested lists. \<open>_map_fn\<close> decodes every image with \<open>channels=3\<close>, so an image
  is rows of pixels of three channel values; a validity mask is rows of \<open>uint8\<close> cells.
\<close>

type_synonym pixel = "real \<times> real \<times> real"

type_synonym rgb_image = "pixel list list"

type_synonym mask_array = "nat list list"

datatype meta_mask = AbsentMask | MalformedMask | EncodedMask mask_array

datatype decoded_mask = NdArray mask_array | NotAnArray

text \<open>
  Modelled from the spec: \<open>decode_mask\<close> of \<open>hyperpose/Model/common.py\<close>, which is not
  among the source files. It decodes a mask representation into a per-pixel validity mask;
  an absent or malformed representation does not raise and yields no array, which the
  caller replaces by the all-valid default.
\<close>

definition decode_mask :: "meta_mask \<Rightarrow> decoded_mask" where
  "decode_mask meta_mask =
     (case meta_mask of
        EncodedMask m \<Rightarrow> NdArray m
      | AbsentMask \<Rightarrow> NotAnArray
      | MalformedMask \<Rightarrow> NotAnArray)"

record 'k ground_truth =
  gt_kpt :: 'k
  gt_labeled :: real
  gt_mask :: meta_mask

text \<open>\<open>np.ones_like(image)[:,:,0].astype(np.uint8)\<close>\<close>

definition ones_like_channel0 :: "rgb_image \<Rightarrow> mask_array" where
  "ones_like_channel0 img = map (map (\<lambda>px. 1)) img"

text \<open>
  Lines 39-41: the decoded mask, or the all-ones default when \<open>decode_mask\<close> did not
  return an array.
\<close>

definition mask_or_default :: "rgb_image \<Rightarrow> meta_mask \<Rightarrow> mask_array" where
  "mask_or_default img meta_mask =
     (case decode_mask meta_mask of NdArray m \<Rightarrow> m | NotAnArray \<Rightarrow> ones_like_channel0 img)"

fun collect :: "(py_error + 'a) list \<Rightarrow> py_error + 'a list" where
  "collect [] = Inr []"
| "collect (x # xs) =
     (case x of
        Inl e \<Rightarrow> Inl e
      | Inr v \<Rightarrow> (case collect xs of Inl e \<Rightarrow> Inl e | Inr vs \<Rightarrow> Inr (v # vs)))"

text \<open>
  NumPy broadcasting along one axis: equal lengths go elementwise, an axis of length one
  is repeated, anything else raises ValueError.
\<close>

definition broadcast_axis ::
  "('a \<Rightarrow> 'b \<Rightarrow> py_error + 'c) \<Rightarrow> 'a list \<Rightarrow> 'b list \<Rightarrow> py_error + 'c list" where
  "broadcast_axis f xs ys =
     (if length xs = length ys then collect (map2 f xs ys)
      else
        (case ys of
           [y] \<Rightarrow> collect (map (\<lambda>x. f x y) xs)
         | _ \<Rightarrow> (case xs of [x] \<Rightarrow> collect (map (f x) ys) | _ \<Rightarrow> Inl ValueError)))"

definition scale_pixel :: "pixel \<Rightarrow> nat \<Rightarrow> pixel" where
  "scale_pixel px m = (case px of (r, g, b) \<Rightarrow> (r * real m, g * real m, b * real m))"

text \<open>
  \<open>image * mask\<close> with \<open>mask = mask[:,:,np.newaxis]\<close>: the two spatial axes broadcast, and
  every channel of a pixel is multiplied by the pixel's mask cell. (The new axis of
  length one shows in \<open>mask_hwc\<close> and \<open>mask_chw\<close> below, the layouts handed on.)
\<close>

definition mask_multiply :: "rgb_image \<Rightarrow> mask_array \<Rightarrow> py_error + rgb_image" where
  "mask_multiply img msk =
     broadcast_axis (broadcast_axis (\<lambda>px m. Inr (scale_pixel px m))) img msk"

record 't aug_result =
  out_image :: "real list list list"
  out_mask :: "nat list list list"
  target_x :: 't
  out_labeled :: real

definition image_hwc :: "rgb_image \<Rightarrow> real list list list" where
  "image_hwc img = map (map (\<lambda>px. case px of (r, g, b) \<Rightarrow> [r, g, b])) img"

definition image_chw :: "rgb_image \<Rightarrow> real list list list" where
  "image_chw img =
     [map (map (\<lambda>px. case px of (r, g, b) \<Rightarrow> r)) img,
      map (map (\<lambda>px. case px of (r, g, b) \<Rightarrow> g)) img,
      map (map (\<lambda>px. case px of (r, g, b) \<Rightarrow> b)) img]"

definition mask_hwc :: "mask_array \<Rightarrow> nat list list list" where
  "mask_hwc msk = map (map (\<lambda>m. [m])) msk"

definition mask_chw :: "mask_array \<Rightarrow> nat list list list" where
  "mask_chw msk = [msk]"

text \<open>
  The augmentor and the preprocessor are the caller's: \<open>augmentor.process\<close> maps image,
  annotations and mask to their transformed versions, \<open>preprocessor.process\<close> encodes the
  target from the annotations and the mask.
\<close>

definition data_aug_fn ::
  "(rgb_image \<Rightarrow> 'k \<Rightarrow> mask_array \<Rightarrow> rgb_image \<times> 'k \<times> mask_array)
     \<Rightarrow> ('k \<Rightarrow> nat list list list \<Rightarrow> 't)
     \<Rightarrow> string \<Rightarrow> rgb_image \<Rightarrow> 'k ground_truth \<Rightarrow> py_error + 't aug_result" where
  "data_aug_fn augmentor preprocessor data_format img ground_truth =
     (let annos = gt_kpt ground_truth;
          labeled_value = gt_labeled ground_truth;
          meta_mask = gt_mask ground_truth;
          msk = mask_or_default img meta_mask
      in case augmentor img annos msk of
           (img1, annos1, msk1) \<Rightarrow>
             (case mask_multiply img1 msk1 of
                Inl e \<Rightarrow> Inl e
              | Inr img2 \<Rightarrow>
                  (let target = preprocessor annos1 (mask_hwc msk1) in
                   if data_format = ''channels_first'' then
                     Inr \<lparr>out_image = image_chw img2, out_mask = mask_chw msk1,
                          target_x = target, out_labeled = labeled_value\<rparr>
                   else
                     Inr \<lparr>out_image = image_hwc img2, out_mask = mask_hwc msk1,
                          target_x = target, out_labeled = labeled_value\<rparr>)))"

section \<open>Concrete runs and the schedule as an invariant\<close>

text \<open>
  A state agrees with the schedule when the local rate and the persisted rate are the
  scheduled rates of the local and of the persisted step.
\<close>

definition on_schedule :: "config \<Rightarrow> train_state \<Rightarrow> bool" where
  "on_schedule cfg st \<longleftrightarrow>
     lr st = spec_lr cfg (step st) \<and> save_lr st = spec_lr cfg (save_step st) \<and>
     save_step st \<le> step st"

text \<open>Three model directories: empty, with an unreadable checkpoint, with a checkpoint.\<close>

definition fresh_disk :: disk where
  "fresh_disk =
     \<lparr>latest_checkpoint = NothingToRestore, pretrained_backbone = False,
      newest_model = False, newest_discriminator = False\<rparr>"

definition corrupt_disk :: disk where
  "corrupt_disk =
     \<lparr>latest_checkpoint = RestoreRaises, pretrained_backbone = False,
      newest_model = False, newest_discriminator = False\<rparr>"

definition checkpoint_disk :: "checkpoint \<Rightarrow> disk" where
  "checkpoint_disk ck =
     \<lparr>latest_checkpoint = Restored ck, pretrained_backbone = True,
      newest_model = True, newest_discriminator = False\<rparr>"

definition unit_batch :: batch where
  "unit_batch =
     \<lparr>labeled = [1, 0, 1, 1], cal_loss = 1, regulize_loss = 1 / 2,
      adapt_cal_loss = (\<lambda>labels. sum_list labels)\<rparr>"

text \<open>The scenario of the specification: 100 steps, a save every 50, batches of 4.\<close>

definition scenario_config :: config where
  "scenario_config =
     \<lparr>n_step = 100, batch_size = 4, lr_init = 1, lr_decay_factor = 1 / 2,
      weight_decay_factor = 0, log_interval = 10, vis_interval = 25, save_interval = 50,
      domainadapt_flag = False\<rparr>"

text \<open>A long run of \<open>n\<close> steps that halves the rate at every threshold.\<close>

definition long_config :: "int \<Rightarrow> config" where
  "long_config n =
     \<lparr>n_step = n, batch_size = 4, lr_init = 1, lr_decay_factor = 1 / 2,
      weight_decay_factor = 0, log_interval = 1000, vis_interval = 1000, save_interval = 50000,
      domainadapt_flag = False\<rparr>"

text \<open>Two KungFu workers, seen from rank 0, and a short multi-worker run.\<close>

definition two_workers :: kungfu where
  "two_workers = \<lparr>current_cluster_size = 2, current_rank = 0\<rparr>"

definition parallel_scenario :: parallel_config where
  "parallel_scenario =
     \<lparr>total_step = 100, p_batch_size = 2, p_lr_init = 1, p_lr_decay_factor = 1 / 2,
      p_log_interval = 10, p_save_interval = 50\<rparr>"

text \<open>
  The scenario with a weight decay, task loss 1 and regularization loss 1/2 at every step.
\<close>

definition regularized_config :: config where
  "regularized_config = scenario_config\<lparr>weight_decay_factor := 1 / 5000\<rparr>"

definition regularized_batches :: "nat \<Rightarrow> batch" where
  "regularized_batches =
     model_batches (\<lambda>k. 1) (\<lambda>k. 1 / 2) (\<lambda>k. [1, 0, 1, 1]) (\<lambda>k labels. sum_list labels)"

text \<open>A tape as \<open>tf.GradientTape(persistent=True)\<close> would make it.\<close>

definition persistent_tape :: tape where
  "persistent_tape = \<lparr>persistent = True, released = False\<rparr>"

section \<open>Lemmas on the loop of \<open>single_train\<close>\<close>

lemma repeat_steps_add:
  "repeat_steps (m + n) body st =
     (case repeat_steps m body st of Inl e \<Rightarrow> Inl e | Inr st' \<Rightarrow> repeat_steps n body st')"
  by (induction m arbitrary: st) (auto split: sum.splits)

lemma repeat_steps_nested:
  "repeat_steps m (repeat_steps k body) st = repeat_steps (m * k) body st"
proof (induction m arbitrary: st)
  case 0
  show ?case by simp
next
  case (Suc m)
  show ?case
    by (simp add: repeat_steps_add Suc.IH split: sum.splits)
qed

lemma index_of_member: "x \<in> set xs \<Longrightarrow> \<exists>i. index_of xs x = Some i"
  by (induction xs) auto

lemma index_of_counts_below:
  fixes xs :: "int list"
  shows "sorted xs \<Longrightarrow> distinct xs \<Longrightarrow> x \<in> set xs \<Longrightarrow>
     \<exists>i. index_of xs x = Some i \<and> Suc i = length (filter (\<lambda>t. t \<le> x) xs)"
proof (induction xs)
  case Nil
  then show ?case by simp
next
  case (Cons y ys)
  show ?case
  proof (cases "y = x")
    case True
    have "filter (\<lambda>t. t \<le> x) ys = []"
      using Cons.prems True by (auto simp: filter_empty_conv)
    with True show ?thesis by simp
  next
    case False
    with Cons.prems have x: "x \<in> set ys" and le: "y \<le> x" by auto
    from Cons.IH Cons.prems x obtain j where
      "index_of ys x = Some j" "Suc j = length (filter (\<lambda>t. t \<le> x) ys)" by auto
    with False le show ?thesis by simp
  qed
qed

lemma lr_decay_steps_sorted: "sorted lr_decay_steps \<and> distinct lr_decay_steps"
  by (simp add: lr_decay_steps_def)

lemma threshold_index:
  "s \<in> set lr_decay_steps \<Longrightarrow>
     \<exists>i. index_of lr_decay_steps s = Some i \<and> Suc i = length (filter (\<lambda>t. t \<le> s) lr_decay_steps)"
  using index_of_counts_below lr_decay_steps_sorted by blast

lemma between_thresholds:
  "s + 1 \<notin> set lr_decay_steps \<Longrightarrow>
     filter (\<lambda>t. t \<le> s + 1) lr_decay_steps = filter (\<lambda>t. t \<le> s) lr_decay_steps"
proof (rule filter_cong [OF refl])
  fix x assume "s + 1 \<notin> set lr_decay_steps" and "x \<in> set lr_decay_steps"
  then have "x \<noteq> s + 1" by auto
  then show "(x \<le> s + 1) = (x \<le> s)" by auto
qed

lemma spec_lr_next:
  "s + 1 \<notin> set lr_decay_steps \<Longrightarrow> spec_lr cfg (s + 1) = spec_lr cfg s"
  by (simp add: spec_lr_def between_thresholds)

lemma spec_lr_threshold:
  "s \<in> set lr_decay_steps \<Longrightarrow> index_of lr_decay_steps s = Some i \<Longrightarrow>
     lr_init cfg * lr_decay_factor cfg ^ (i + 1) = spec_lr cfg s"
  using threshold_index [of s] by (auto simp: spec_lr_def)

lemma spec_lr_before: "s < 200000 \<Longrightarrow> spec_lr cfg s = lr_init cfg"
  by (simp add: spec_lr_def lr_decay_steps_def)

lemma resume_decay_before: "s \<le> 200000 \<Longrightarrow> resume_decay f s r = r"
  by (simp add: resume_decay_def lr_decay_steps_def)


lemma optimize_step_plain:
  "optimize_step False b st = Inr (apply_gradients Opt ModelWeights (cal_loss b) st)"
  by (simp add: optimize_step_def optimize_step_on_def tape_gradient_def GradientTape_def Let_def)

lemma decay_lr_threshold:
  assumes "step st \<in> set lr_decay_steps"
  shows "decay_lr cfg st = Inr (st\<lparr>lr := spec_lr cfg (step st)\<rparr>)"
proof -
  from index_of_member [OF assms] obtain i where i: "index_of lr_decay_steps (step st) = Some i" ..
  have "lr_init cfg * lr_decay_factor cfg ^ (i + 1) = spec_lr cfg (step st)"
    by (rule spec_lr_threshold [OF assms i])
  moreover have "decay_lr cfg st = Inr (st\<lparr>lr := lr_init cfg * lr_decay_factor cfg ^ (i + 1)\<rparr>)"
    unfolding decay_lr_def by (simp only: assms i if_True option.case)
  ultimately show ?thesis by (simp only:)
qed

lemma decay_lr_elsewhere:
  assumes "step st \<notin> set lr_decay_steps"
  shows "decay_lr cfg st = Inr st"
  using assms by (simp add: decay_lr_def)

text \<open>What an iteration leaves alone.\<close>

lemma emit_fields [simp]:
  "step (emit e st) = step st" "lr (emit e st) = lr st" "save_step (emit e st) = save_step st"
  "save_lr (emit e st) = save_lr st" "pulled (emit e st) = pulled st"
  "opt_iterations (emit e st) = opt_iterations st"
  "opt_d_iterations (emit e st) = opt_d_iterations st"
  "trace (emit e st) = trace st @ [e]"
  by (simp_all add: emit_def)

lemma apply_gradients_fields [simp]:
  "step (apply_gradients opt w loss st) = step st"
  "lr (apply_gradients opt w loss st) = lr st"
  "save_step (apply_gradients opt w loss st) = save_step st"
  "save_lr (apply_gradients opt w loss st) = save_lr st"
  "pulled (apply_gradients opt w loss st) = pulled st"
  "trace (apply_gradients opt w loss st) = trace st @ [ApplyGradients opt w loss (save_lr st)]"
  by (cases opt; simp add: apply_gradients_def)+

lemma periodic_log_fields [simp]:
  "step (periodic_log cfg st) = step st" "lr (periodic_log cfg st) = lr st"
  "save_step (periodic_log cfg st) = save_step st" "save_lr (periodic_log cfg st) = save_lr st"
  "pulled (periodic_log cfg st) = pulled st"
  by (simp_all add: periodic_log_def)

lemma periodic_vis_fields [simp]:
  "step (periodic_vis cfg st) = step st" "lr (periodic_vis cfg st) = lr st"
  "save_step (periodic_vis cfg st) = save_step st" "save_lr (periodic_vis cfg st) = save_lr st"
  "pulled (periodic_vis cfg st) = pulled st"
  by (simp_all add: periodic_vis_def)

lemma periodic_save_fields [simp]:
  "step (periodic_save cfg st) = step st" "lr (periodic_save cfg st) = lr st"
  "pulled (periodic_save cfg st) = pulled st"
  by (simp_all add: periodic_save_def Let_def)

lemma periodic_save_saved:
  "(save_step (periodic_save cfg st) = save_step st \<and> save_lr (periodic_save cfg st) = save_lr st)
   \<or> (save_step (periodic_save cfg st) = step st \<and> save_lr (periodic_save cfg st) = lr st)"
  by (simp add: periodic_save_def Let_def)

lemma periodic_trace_updates [simp]:
  "filter is_update (trace (periodic_log cfg st)) = filter is_update (trace st)"
  "filter is_update (trace (periodic_vis cfg st)) = filter is_update (trace st)"
  "filter is_update (trace (periodic_save cfg st)) = filter is_update (trace st)"
  by (simp_all add: periodic_log_def periodic_vis_def periodic_save_def Let_def)

lemma train_iteration_plain:
  assumes "\<not> domainadapt_flag cfg"
  shows "train_iteration cfg batches st =
     Inr (periodic_save cfg (periodic_vis cfg (periodic_log cfg
       (apply_gradients Opt ModelWeights (cal_loss (batches (pulled st)))
          (st\<lparr>step := step st + 1, pulled := Suc (pulled st),
              lr := (if step st + 1 \<in> set lr_decay_steps then spec_lr cfg (step st + 1) else lr st)\<rparr>)))))"
proof (cases "step st + 1 \<in> set lr_decay_steps")
  case True
  then have "decay_lr cfg (st\<lparr>step := step st + 1, pulled := Suc (pulled st)\<rparr>) =
      Inr (st\<lparr>step := step st + 1, pulled := Suc (pulled st), lr := spec_lr cfg (step st + 1)\<rparr>)"
    using decay_lr_threshold [of "st\<lparr>step := step st + 1, pulled := Suc (pulled st)\<rparr>" cfg] by simp
  with True assms show ?thesis
    by (simp add: train_iteration_def Let_def optimize_step_plain)
next
  case False
  then have "decay_lr cfg (st\<lparr>step := step st + 1, pulled := Suc (pulled st)\<rparr>) =
      Inr (st\<lparr>step := step st + 1, pulled := Suc (pulled st)\<rparr>)"
    using decay_lr_elsewhere [of "st\<lparr>step := step st + 1, pulled := Suc (pulled st)\<rparr>" cfg] by simp
  with False assms show ?thesis
    by (simp add: train_iteration_def Let_def optimize_step_plain)
qed

lemma train_iteration_on_schedule:
  assumes "\<not> domainadapt_flag cfg" and "on_schedule cfg st"
  shows "\<exists>st'. train_iteration cfg batches st = Inr st' \<and> on_schedule cfg st' \<and>
           step st' = step st + 1 \<and> pulled st' = Suc (pulled st) \<and>
           filter is_update (trace st') =
             filter is_update (trace st) @
               [ApplyGradients Opt ModelWeights (cal_loss (batches (pulled st))) (save_lr st)]"
proof -
  define st1 where "st1 = apply_gradients Opt ModelWeights (cal_loss (batches (pulled st)))
          (st\<lparr>step := step st + 1, pulled := Suc (pulled st),
              lr := (if step st + 1 \<in> set lr_decay_steps then spec_lr cfg (step st + 1) else lr st)\<rparr>)"
  define st' where "st' = periodic_save cfg (periodic_vis cfg (periodic_log cfg st1))"
  have run: "train_iteration cfg batches st = Inr st'"
    unfolding st'_def st1_def by (rule train_iteration_plain [OF assms(1)])
  have lr1: "lr st1 = spec_lr cfg (step st + 1)"
    using assms(2) by (simp add: st1_def on_schedule_def spec_lr_next)
  have s1: "step st1 = step st + 1" "save_step st1 = save_step st" "save_lr st1 = save_lr st"
    "pulled st1 = Suc (pulled st)"
    by (simp_all add: st1_def)
  have step': "step st' = step st + 1" and lr': "lr st' = spec_lr cfg (step st + 1)"
    and pulled': "pulled st' = Suc (pulled st)"
    by (simp_all add: st'_def s1 lr1)
  have "(save_step st' = save_step st \<and> save_lr st' = save_lr st)
        \<or> (save_step st' = step st + 1 \<and> save_lr st' = spec_lr cfg (step st + 1))"
    using periodic_save_saved [of cfg "periodic_vis cfg (periodic_log cfg st1)"]
    by (simp add: st'_def s1 lr1)
  with assms(2) step' lr' have "on_schedule cfg st'"
    by (auto simp: on_schedule_def)
  moreover have "filter is_update (trace st') =
             filter is_update (trace st) @
               [ApplyGradients Opt ModelWeights (cal_loss (batches (pulled st))) (save_lr st)]"
    by (simp add: st'_def st1_def)
  ultimately show ?thesis using run step' pulled' by simp
qed

lemma repeat_steps_on_schedule:
  assumes "\<not> domainadapt_flag cfg"
  shows "on_schedule cfg st \<Longrightarrow>
     \<exists>st'. repeat_steps n (train_iteration cfg batches) st = Inr st' \<and> on_schedule cfg st' \<and>
           step st' = step st + int n \<and> pulled st' = pulled st + n"
proof (induction n arbitrary: st)
  case 0
  then show ?case by simp
next
  case (Suc n)
  from train_iteration_on_schedule [OF assms Suc.prems, of batches] obtain st1 where
    st1: "train_iteration cfg batches st = Inr st1" "on_schedule cfg st1"
      "step st1 = step st + 1" "pulled st1 = Suc (pulled st)" by auto
  from Suc.IH [OF st1(2)] obtain st' where
    "repeat_steps n (train_iteration cfg batches) st1 = Inr st'" "on_schedule cfg st'"
    "step st' = step st1 + int n" "pulled st' = pulled st1 + n" by auto
  with st1 show ?case by simp
qed

lemma restore_without_checkpoint:
  assumes "r = NothingToRestore \<or> r = RestoreRaises"
  shows "step (restore_ckpt flag r st) = step st" "lr (restore_ckpt flag r st) = lr st"
    "save_step (restore_ckpt flag r st) = save_step st"
    "save_lr (restore_ckpt flag r st) = save_lr st"
    "opt_iterations (restore_ckpt flag r st) = opt_iterations st"
    "opt_d_iterations (restore_ckpt flag r st) = opt_d_iterations st"
    "pulled (restore_ckpt flag r st) = pulled st"
  using assms by (auto simp: restore_ckpt_def Let_def)

lemma load_weights_fields [simp]:
  "step (load_weights cfg d st) = step st" "lr (load_weights cfg d st) = lr st"
  "save_step (load_weights cfg d st) = save_step st" "save_lr (load_weights cfg d st) = save_lr st"
  "opt_iterations (load_weights cfg d st) = opt_iterations st"
  "opt_d_iterations (load_weights cfg d st) = opt_d_iterations st"
  "pulled (load_weights cfg d st) = pulled st"
  by (simp_all add: load_weights_def Let_def)

lemma startup_without_checkpoint:
  assumes "latest_checkpoint d = NothingToRestore \<or> latest_checkpoint d = RestoreRaises"
  shows "step (startup cfg d) = 1" "lr (startup cfg d) = lr_init cfg"
    "save_step (startup cfg d) = 1" "save_lr (startup cfg d) = lr_init cfg"
    "opt_iterations (startup cfg d) = 0" "opt_d_iterations (startup cfg d) = 0"
    "pulled (startup cfg d) = 0"
  using assms
  by (simp_all add: startup_def Let_def restore_without_checkpoint initial_state_def
        resume_decay_before)

lemma startup_on_schedule:
  assumes "latest_checkpoint d = NothingToRestore \<or> latest_checkpoint d = RestoreRaises"
  shows "on_schedule cfg (startup cfg d)"
  by (simp add: on_schedule_def startup_without_checkpoint [OF assms] spec_lr_before)

lemma single_train_unfold:
  assumes "batch_size cfg \<noteq> 0" and "datasize div batch_size cfg \<noteq> 0"
  shows "single_train cfg datasize d batches =
     repeat_steps
       (nat (n_step cfg div int (datasize div batch_size cfg)
             - (step (startup cfg d) div int (datasize div batch_size cfg) + 1))
        * (datasize div batch_size cfg))
       (train_iteration cfg batches) (startup cfg d)"
  using assms by (simp add: single_train_def Let_def repeat_steps_nested)

lemma single_train_completes:
  assumes "\<not> domainadapt_flag cfg" and "batch_size cfg \<noteq> 0" and "batch_size cfg \<le> datasize"
    and "latest_checkpoint d = NothingToRestore \<or> latest_checkpoint d = RestoreRaises"
  shows "\<exists>st. single_train cfg datasize d batches = Inr st \<and> on_schedule cfg st"
proof -
  from assms(2,3) have "datasize div batch_size cfg \<noteq> 0"
    by (simp add: div_eq_0_iff)
  from single_train_unfold [OF assms(2) this]
    repeat_steps_on_schedule [OF assms(1) startup_on_schedule [OF assms(4)]]
  show ?thesis by metis
qed

lemma last_iteration:
  assumes flag: "\<not> domainadapt_flag cfg" and os: "on_schedule cfg st"
  shows "\<exists>st1. repeat_steps n (train_iteration cfg batches) st = Inr st1 \<and> on_schedule cfg st1 \<and>
           step st1 = step st + int n \<and>
           repeat_steps (Suc n) (train_iteration cfg batches) st =
             train_iteration cfg batches st1"
proof -
  from repeat_steps_on_schedule [OF flag os, of n batches] obtain st1 where
    st1: "repeat_steps n (train_iteration cfg batches) st = Inr st1" "on_schedule cfg st1"
      "step st1 = step st + int n" by auto
  have "repeat_steps (n + 1) (train_iteration cfg batches) st =
      (case repeat_steps n (train_iteration cfg batches) st of
         Inl e \<Rightarrow> Inl e
       | Inr st' \<Rightarrow> repeat_steps 1 (train_iteration cfg batches) st')"
    by (rule repeat_steps_add)
  also have "\<dots> = train_iteration cfg batches st1"
    by (simp add: st1(1) split: sum.splits)
  finally show ?thesis using st1 by simp
qed


lemma periodic_save_fires:
  assumes "step st \<noteq> 0" and "np_mod (step st) (save_interval cfg) = 0"
  shows "save_step (periodic_save cfg st) = step st" "save_lr (periodic_save cfg st) = lr st"
  using assms by (simp_all add: periodic_save_def Let_def)


lemma periodic_quiet:
  "np_mod (step st) (log_interval cfg) \<noteq> 0 \<Longrightarrow> periodic_log cfg st = st"
  "np_mod (step st) (vis_interval cfg) \<noteq> 0 \<Longrightarrow> periodic_vis cfg st = st"
  "np_mod (step st) (save_interval cfg) \<noteq> 0 \<Longrightarrow> periodic_save cfg st = st"
  by (simp_all add: periodic_log_def periodic_vis_def periodic_save_def)

lemma resumed_run_evaluated:
  "case single_train (long_config 250003) 4
           (checkpoint_disk \<lparr>ck_step = 250000, ck_lr = 1 / 2, ck_opt = 249999, ck_opt_d = 0\<rparr>)
           (\<lambda>k. unit_batch) of
      Inl e \<Rightarrow> False
    | Inr st \<Rightarrow> step st = 250002 \<and> lr st = 1 / 4 \<and> spec_lr (long_config 250003) (step st) = 1 / 2"
proof -
  let ?cfg = "long_config 250003"
  let ?d = "checkpoint_disk \<lparr>ck_step = 250000, ck_lr = 1 / 2, ck_opt = 249999, ck_opt_d = 0\<rparr>"
  have flag: "\<not> domainadapt_flag ?cfg" by (simp add: long_config_def)
  have cfgf: "batch_size ?cfg = 4" "n_step ?cfg = 250003"
    "log_interval ?cfg = 1000" "vis_interval ?cfg = 1000" "save_interval ?cfg = 50000"
    by (simp_all add: long_config_def)
  have s0: "step (startup ?cfg ?d) = 250000" "lr (startup ?cfg ?d) = 1 / 4"
    by (simp_all add: startup_def Let_def restore_ckpt_def checkpoint_disk_def initial_state_def
          long_config_def resume_decay_def lr_decay_steps_def)
  have run: "single_train ?cfg 4 ?d (\<lambda>k. unit_batch) =
      repeat_steps (Suc (Suc 0)) (train_iteration ?cfg (\<lambda>k. unit_batch)) (startup ?cfg ?d)"
    by (simp add: single_train_unfold s0 cfgf numeral_2_eq_2)
  have spec: "spec_lr ?cfg 250002 = 1 / 2"
    by (simp add: spec_lr_def lr_decay_steps_def long_config_def)
  show ?thesis
    unfolding run
    by (simp add: train_iteration_plain [OF flag] s0 spec lr_decay_steps_def periodic_quiet
          cfgf np_mod_def)
qed

section \<open>The learning rate\<close>

text \<open>
  Without domain adaptation, a run that starts without a checkpoint completes, and the
  local rate follows the specification's schedule at every step it reaches.
\<close>

lemma fresh_run_follows_schedule:
  assumes "\<not> domainadapt_flag cfg"
    and "latest_checkpoint d = NothingToRestore \<or> latest_checkpoint d = RestoreRaises"
  shows "\<exists>st. repeat_steps n (train_iteration cfg batches) (startup cfg d) = Inr st \<and>
           step st = 1 + int n \<and> lr st = spec_lr cfg (step st)"
  using repeat_steps_on_schedule [OF assms(1) startup_on_schedule [OF assms(2)], of n batches]
  by (auto simp: on_schedule_def startup_without_checkpoint [OF assms(2)])

lemma count_below_mono:
  fixes xs :: "int list"
  shows "s \<le> t \<Longrightarrow> length (filter (\<lambda>x. x \<le> s) xs) \<le> length (filter (\<lambda>x. x \<le> t) xs)"
  by (induction xs) auto

lemma spec_lr_antimono:
  assumes "0 \<le> lr_init cfg" and "0 \<le> lr_decay_factor cfg" and "lr_decay_factor cfg \<le> 1"
    and "s \<le> t"
  shows "spec_lr cfg t \<le> spec_lr cfg s"
proof -
  have "length (filter (\<lambda>x. x \<le> s) lr_decay_steps) \<le> length (filter (\<lambda>x. x \<le> t) lr_decay_steps)"
    using assms(4) by (rule count_below_mono)
  then have "lr_decay_factor cfg ^ length (filter (\<lambda>x. x \<le> t) lr_decay_steps)
      \<le> lr_decay_factor cfg ^ length (filter (\<lambda>x. x \<le> s) lr_decay_steps)"
    using assms(2,3) by (rule power_decreasing)
  then show ?thesis
    unfolding spec_lr_def using assms(1) by (rule mult_left_mono)
qed

text \<open>
  At a restart the restored rate is multiplied once for every threshold strictly below
  the restored step, whatever the restored rate already contains.
\<close>

lemma fold_decay_count:
  "fold (\<lambda>t r. if s > t then r * f else r) ts (rate :: real) =
     rate * f ^ length (filter (\<lambda>t. t < s) ts)"
  by (induction ts arbitrary: rate) (simp_all add: mult.assoc)

lemma resume_decay_count:
  "resume_decay f s rate = rate * f ^ length (filter (\<lambda>t. t < s) lr_decay_steps)"
  unfolding resume_decay_def by (rule fold_decay_count)

text \<open>
  Claim C1 (the scheduler computes \<open>lr_init\<close> times one multiplier per threshold at or
  below the step), at a restart. A run of 250001 steps ends having persisted step 250000
  with the scheduled rate 1/2. A process restarted on that checkpoint multiplies the
  restored rate by the factor once more: at step 250002 its rate is 1/4, where the
  schedule says 1/2.
\<close>

theorem resumed_run_decays_twice:
  "(case single_train (long_config 250001) 4 fresh_disk (\<lambda>k. unit_batch) of
      Inl e \<Rightarrow> False
    | Inr st \<Rightarrow> save_step st = 250000 \<and> save_lr st = 1 / 2) \<and>
   (case single_train (long_config 250003) 4
           (checkpoint_disk \<lparr>ck_step = 250000, ck_lr = 1 / 2, ck_opt = 249999, ck_opt_d = 0\<rparr>)
           (\<lambda>k. unit_batch) of
      Inl e \<Rightarrow> False
    | Inr st \<Rightarrow> step st = 250002 \<and> lr st = 1 / 4 \<and> spec_lr (long_config 250003) (step st) = 1 / 2)"
proof (rule conjI)
  let ?cfg = "long_config 250001"
  let ?body = "train_iteration ?cfg (\<lambda>k. unit_batch)"
  have flag: "\<not> domainadapt_flag ?cfg" by (simp add: long_config_def)
  have fresh: "latest_checkpoint fresh_disk = NothingToRestore \<or> latest_checkpoint fresh_disk = RestoreRaises"
    by (simp add: fresh_disk_def)
  have run: "single_train ?cfg 4 fresh_disk (\<lambda>k. unit_batch) =
      repeat_steps (Suc 249998) ?body (startup ?cfg fresh_disk)"
    by (simp add: single_train_unfold startup_without_checkpoint [OF fresh] long_config_def)
  from last_iteration [OF flag startup_on_schedule [OF fresh], of 249998 "\<lambda>k. unit_batch"]
  obtain st1 where st1: "on_schedule ?cfg st1" "step st1 = 249999"
    "repeat_steps (Suc 249998) ?body (startup ?cfg fresh_disk) = ?body st1"
    by (auto simp: startup_without_checkpoint [OF fresh])
  define st' where "st' = periodic_save ?cfg (periodic_vis ?cfg (periodic_log ?cfg
       (apply_gradients Opt ModelWeights (cal_loss unit_batch)
          (st1\<lparr>step := step st1 + 1, pulled := Suc (pulled st1),
              lr := (if step st1 + 1 \<in> set lr_decay_steps then spec_lr ?cfg (step st1 + 1) else lr st1)\<rparr>))))"
  have body: "?body st1 = Inr st'"
    unfolding st'_def by (rule train_iteration_plain [OF flag])
  have "spec_lr ?cfg 249999 = 1 / 2"
    by (simp add: spec_lr_def lr_decay_steps_def long_config_def)
  with st1(1,2) have lr1: "lr st1 = 1 / 2" by (simp add: on_schedule_def)
  have "save_step st' = 250000 \<and> save_lr st' = 1 / 2"
    unfolding st'_def
    by (subst periodic_save_fires(1), simp add: st1(2), simp add: st1(2) long_config_def np_mod_def,
        subst periodic_save_fires(2), simp add: st1(2), simp add: st1(2) long_config_def np_mod_def,
        simp add: st1(2) lr1 lr_decay_steps_def)
  then show "case single_train ?cfg 4 fresh_disk (\<lambda>k. unit_batch) of
      Inl e \<Rightarrow> False
    | Inr st \<Rightarrow> save_step st = 250000 \<and> save_lr st = 1 / 2"
    unfolding run st1(3) body sum.case .
next
  show "case single_train (long_config 250003) 4
           (checkpoint_disk \<lparr>ck_step = 250000, ck_lr = 1 / 2, ck_opt = 249999, ck_opt_d = 0\<rparr>)
           (\<lambda>k. unit_batch) of
      Inl e \<Rightarrow> False
    | Inr st \<Rightarrow> step st = 250002 \<and> lr st = 1 / 4 \<and> spec_lr (long_config 250003) (step st) = 1 / 2"
    by (rule resumed_run_evaluated)
qed


section \<open>The rate the optimizer reads\<close>

text \<open>
  Claim C2 (the optimizer applies every update with the scheduler's rate for the current
  step), at the first threshold of a fresh run. At step 200000 the local rate is the
  scheduled 1/2, and the update of that step is applied with the rate 1: the optimizer
  reads \<open>save_lr\<close>, which is assigned at saves only.
\<close>

theorem optimizer_lags_schedule:
  "(case single_train (long_config 200001) 4 fresh_disk (\<lambda>k. unit_batch) of
      Inl e \<Rightarrow> False
    | Inr st \<Rightarrow>
        step st = 200000 \<and> lr st = 1 / 2 \<and> spec_lr (long_config 200001) (step st) = 1 / 2 \<and>
        last (filter is_update (trace st)) = ApplyGradients Opt ModelWeights 1 1)"
proof -
  let ?cfg = "long_config 200001"
  let ?body = "train_iteration ?cfg (\<lambda>k. unit_batch)"
  have flag: "\<not> domainadapt_flag ?cfg" by (simp add: long_config_def)
  have fresh: "latest_checkpoint fresh_disk = NothingToRestore \<or> latest_checkpoint fresh_disk = RestoreRaises"
    by (simp add: fresh_disk_def)
  have run: "single_train ?cfg 4 fresh_disk (\<lambda>k. unit_batch) =
      repeat_steps (Suc 199998) ?body (startup ?cfg fresh_disk)"
    by (simp add: single_train_unfold startup_without_checkpoint [OF fresh] long_config_def)
  from last_iteration [OF flag startup_on_schedule [OF fresh], of 199998 "\<lambda>k. unit_batch"]
  obtain st1 where st1: "on_schedule ?cfg st1" "step st1 = 199999"
    "repeat_steps (Suc 199998) ?body (startup ?cfg fresh_disk) = ?body st1"
    by (auto simp: startup_without_checkpoint [OF fresh])
  from st1(1,2) have rate: "save_lr st1 = 1"
    by (simp add: on_schedule_def spec_lr_before long_config_def)
  from train_iteration_on_schedule [OF flag st1(1), of "\<lambda>k. unit_batch"] obtain st' where
    st': "?body st1 = Inr st'" "on_schedule ?cfg st'" "step st' = step st1 + 1"
      "filter is_update (trace st') =
         filter is_update (trace st1) @ [ApplyGradients Opt ModelWeights (cal_loss unit_batch) (save_lr st1)]"
    by auto
  have a: "step st' = 200000" using st'(3) st1(2) by simp
  have "spec_lr ?cfg 200000 = 1 / 2"
    by (simp add: spec_lr_def lr_decay_steps_def long_config_def)
  then have c: "spec_lr ?cfg (step st') = 1 / 2" by (simp only: a)
  then have b: "lr st' = 1 / 2" using st'(2) by (simp only: on_schedule_def)
  have d: "last (filter is_update (trace st')) = ApplyGradients Opt ModelWeights 1 1"
    by (simp add: st'(4) rate unit_batch_def)
  show ?thesis
    unfolding run st1(3) st'(1) sum.case using a b c d by (intro conjI)
qed

section \<open>The scenario of 100 steps\<close>

text \<open>
  Claim C3 (two checkpoint saves, at steps 50 and 100, and the dataset cycled), evaluated:
  the run pulls 95 batches, which is more than the 20 samples, stops at step 96 and saves
  once, at step 50.
\<close>

theorem scenario_saves_once:
  "(case single_train scenario_config 20 fresh_disk (\<lambda>k. unit_batch) of
      Inl e \<Rightarrow> False
    | Inr st \<Rightarrow>
        filter is_ckpt_save (trace st) = [CkptSave 50 1] \<and> step st = 96 \<and> pulled st = 95 \<and>
        20 < pulled st * batch_size scenario_config)"
  by code_simp

section \<open>Restoring at start-up\<close>

text \<open>
  Claim C6, as stated (after a restore that fails or finds nothing, training begins from
  global step 0), fails: the step counter is created with the value 1 and keeps it.
\<close>

theorem failed_restore_starts_at_step_one:
  "step (startup scenario_config corrupt_disk) \<noteq> 0 \<and>
   step (startup scenario_config fresh_disk) \<noteq> 0"
  by (simp add: startup_without_checkpoint corrupt_disk_def fresh_disk_def)

lemma fallback_logged:
  "latest_checkpoint d = RestoreRaises \<Longrightarrow> Log ckpt_fallback_message \<in> set (trace (startup cfg d))"
  by (simp add: startup_def Let_def restore_ckpt_def load_weights_def)

text \<open>
  Claim C6, amended: when the restore raises or finds no checkpoint, start-up goes on with
  the step counter at its initial value 1, the initial learning rate and optimizers that
  have applied no update; whenever the restore raises, the fallback message is in the log;
  and, without domain adaptation and with at least one batch per epoch, the run completes.
\<close>

theorem restore_failure_falls_back:
  assumes "latest_checkpoint d = RestoreRaises \<or> latest_checkpoint d = NothingToRestore"
  shows "step (startup cfg d) = 1 \<and> save_step (startup cfg d) = 1 \<and>
         lr (startup cfg d) = lr_init cfg \<and> save_lr (startup cfg d) = lr_init cfg \<and>
         opt_iterations (startup cfg d) = 0 \<and> opt_d_iterations (startup cfg d) = 0 \<and>
         (latest_checkpoint d = RestoreRaises \<longrightarrow>
            Log ckpt_fallback_message \<in> set (trace (startup cfg d))) \<and>
         (\<not> domainadapt_flag cfg \<and> batch_size cfg \<noteq> 0 \<and> batch_size cfg \<le> datasize \<longrightarrow>
            (\<exists>st. single_train cfg datasize d batches = Inr st))"
proof -
  from assms have a: "latest_checkpoint d = NothingToRestore \<or> latest_checkpoint d = RestoreRaises"
    by auto
  show ?thesis
    using single_train_completes [OF _ _ _ a, of cfg datasize batches] fallback_logged [of d cfg]
    by (auto simp: startup_without_checkpoint [OF a])
qed

text \<open>Claim C6, amended, at the scenario's configuration with an unreadable checkpoint.\<close>

theorem restore_failure_falls_back_witness:
  "latest_checkpoint corrupt_disk = RestoreRaises \<and>
   step (startup scenario_config corrupt_disk) = 1 \<and>
   lr (startup scenario_config corrupt_disk) = 1 \<and>
   opt_iterations (startup scenario_config corrupt_disk) = 0 \<and>
   Log ckpt_fallback_message \<in> set (trace (startup scenario_config corrupt_disk)) \<and>
   (\<exists>st. single_train scenario_config 20 corrupt_disk (\<lambda>k. unit_batch) = Inr st)"
proof -
  have h: "latest_checkpoint corrupt_disk = RestoreRaises" by (simp add: corrupt_disk_def)
  have c: "\<not> domainadapt_flag scenario_config \<and> batch_size scenario_config \<noteq> 0 \<and>
      batch_size scenario_config \<le> 20" "lr_init scenario_config = 1"
    by (simp_all add: scenario_config_def)
  from restore_failure_falls_back [of corrupt_disk scenario_config 20 "\<lambda>k. unit_batch"] h c
  show ?thesis by simp
qed

section \<open>Lemmas on \<open>parallel_train\<close>\<close>

lemma p_emit_fields [simp]:
  "step_name (p_emit e st) = step_name st" "step_variable (p_emit e st) = step_variable st"
  "lr_name (p_emit e st) = lr_name st" "lr_variable (p_emit e st) = lr_variable st"
  "decay_steps (p_emit e st) = decay_steps st" "p_total_step (p_emit e st) = p_total_step st"
  "p_trace (p_emit e st) = p_trace st @ [e]"
  by (simp_all add: p_emit_def)

lemma rescale_loop_fields [simp]:
  "step_variable (rescale_loop w n i st) = step_variable st"
  "lr_name (rescale_loop w n i st) = lr_name st"
  "lr_variable (rescale_loop w n i st) = lr_variable st"
  "p_total_step (rescale_loop w n i st) = p_total_step st"
  "p_trace (rescale_loop w n i st) = p_trace st"
  by (induction n arbitrary: i st; simp)+

lemma rescale_loop_rebinds:
  "step_name (rescale_loop w (Suc n) i st) = PyInt (decay_steps st ! (i + n))"
proof (induction n arbitrary: i st)
  case 0
  show ?case by simp
next
  case (Suc n)
  have "step_name (rescale_loop w (Suc (Suc n)) i st) =
      step_name (rescale_loop w (Suc n) (Suc i)
        (st\<lparr>step_name := PyInt (decay_steps st ! i),
            decay_steps := (decay_steps st)[i := (decay_steps st ! i) div int w + 1]\<rparr>))"
    by simp
  also have "\<dots> = PyInt ((decay_steps st)[i := (decay_steps st ! i) div int w + 1] ! (Suc i + n))"
    by (subst Suc.IH) simp
  also have "\<dots> = PyInt (decay_steps st ! (i + Suc n))"
    by simp
  finally show ?case .
qed

lemma rescale_loop_steps:
  "i + n \<le> length (decay_steps st) \<Longrightarrow>
     decay_steps (rescale_loop w n i st) =
       take i (decay_steps st) @ map (\<lambda>s. s div int w + 1) (take n (drop i (decay_steps st)))
         @ drop (i + n) (decay_steps st)"
proof (induction n arbitrary: i st)
  case 0
  show ?case by simp
next
  case (Suc n)
  let ?xs = "decay_steps st"
  let ?st = "st\<lparr>step_name := PyInt (?xs ! i), decay_steps := ?xs[i := (?xs ! i) div int w + 1]\<rparr>"
  from Suc.prems have i: "i < length ?xs" by simp
  have "decay_steps (rescale_loop w (Suc n) i st) = decay_steps (rescale_loop w n (Suc i) ?st)"
    by simp
  also have "\<dots> = take (Suc i) (decay_steps ?st)
      @ map (\<lambda>s. s div int w + 1) (take n (drop (Suc i) (decay_steps ?st)))
      @ drop (Suc i + n) (decay_steps ?st)"
    using Suc.prems by (subst Suc.IH) simp_all
  also have "\<dots> = take i ?xs @ map (\<lambda>s. s div int w + 1) (take (Suc n) (drop i ?xs))
      @ drop (i + Suc n) ?xs"
  proof -
    have t: "take (Suc i) (?xs[i := (?xs ! i) div int w + 1]) = take i ?xs @ [(?xs ! i) div int w + 1]"
      using i by (simp add: take_Suc_conv_app_nth)
    have d: "drop i ?xs = ?xs ! i # drop (Suc i) ?xs"
      using i by (simp add: Cons_nth_drop_Suc)
    show ?thesis by (simp add: t d)
  qed
  finally show ?case .
qed

lemma rescale_loop_rebinds_last:
  "0 < n \<Longrightarrow> step_name (rescale_loop w n i st) = PyInt (decay_steps st ! (i + n - 1))"
  using rescale_loop_rebinds [of w "n - 1" i st] by simp

lemma parallel_setup_cases:
  "(current_cluster_size kf = 0 \<and>
      (\<exists>st. parallel_setup cfg kf r = Inl (ZeroDivisionError, st) \<and> filter is_update (p_trace st) = []
         \<and> filter is_broadcast (p_trace st) = [])) \<or>
   (current_cluster_size kf \<noteq> 0 \<and>
      (\<exists>st. parallel_setup cfg kf r = Inr st \<and> step_name st = PyInt 900000 \<and>
         decay_steps st = map (\<lambda>s. s div int (current_cluster_size kf) + 1) lr_decay_steps \<and>
         filter is_update (p_trace st) = [] \<and> filter is_broadcast (p_trace st) = []))"
proof (cases "current_cluster_size kf = 0")
  case True
  then show ?thesis
    by (cases r) (simp_all add: parallel_setup_def initial_parallel_state_def Let_def)
next
  case False
  have len: "length lr_decay_steps = 10" by (simp add: lr_decay_steps_def)
  have last: "lr_decay_steps ! 9 = 900000" by (simp add: lr_decay_steps_def)
  show ?thesis using False
    by (cases r)
       (simp_all add: parallel_setup_def initial_parallel_state_def Let_def len
          rescale_loop_rebinds_last last
          rescale_loop_steps del: rescale_loop.simps)
qed

lemma parallel_iteration_unpack:
  "parallel_iteration cfg kf (batch_element samples) b st = Inl (ValueError, st)"
  by (simp add: parallel_iteration_def batch_element_def)

lemma parallel_dataset_elements:
  "parallel_dataset w i bs order = Some ds \<Longrightarrow> ds k = batch_element (map (sample_at w i order) [k * bs..<k * bs + bs])"
  by (auto simp: parallel_dataset_def split: if_splits)

lemma parallel_loop_raises:
  assumes "parallel_dataset w i bs order = Some ds"
  shows "parallel_loop cfg kf ds batches k st = Some (Inl (ValueError, st))"
  by (subst parallel_loop.simps)
     (simp add: parallel_dataset_elements [OF assms] parallel_iteration_unpack)

lemma one_step_rebound:
  "step_name st = PyInt n \<Longrightarrow> one_step b fb st = Inl (AttributeError, st)"
  by (simp add: one_step_def)

lemma final_state_simps [simp]:
  "final_state (Inl (e, st)) = st" "final_state (Inr st) = st"
  by (simp_all add: final_state_def)

section \<open>The loop of \<open>parallel_train\<close>\<close>

text \<open>
  Claim C5: for every configuration, cluster, checkpoint, dataset order and batch stream,
  \<open>parallel_train\<close> returns without having applied a single update. Whenever the loop is
  entered (the rank is below the cluster size, the batch size is not zero and the worker's
  shard is not empty), its first iteration raises ValueError on destructuring the element, the name
  \<open>step\<close> is bound to the plain integer 900000, and every call of \<open>one_step\<close> in that
  state raises AttributeError. Every element of the dataset is a tuple of four tensors.
\<close>

theorem parallel_train_raises_first_iteration:
  "(\<exists>r. parallel_train cfg kf ck order batches = Some r \<and>
         filter is_update (p_trace (final_state r)) = []) \<and>
   (current_rank kf < current_cluster_size kf \<and> p_batch_size cfg \<noteq> 0 \<and>
    shard (current_cluster_size kf) (current_rank kf) (order 0) \<noteq> [] \<longrightarrow>
      (\<exists>st. parallel_train cfg kf ck order batches = Some (Inl (ValueError, st)) \<and>
            step_name st = PyInt 900000 \<and>
            (\<forall>b is_first_batch. one_step b is_first_batch st = Inl (AttributeError, st)))) \<and>
   (\<forall>ds k. parallel_dataset (current_cluster_size kf) (current_rank kf) (p_batch_size cfg) order
              = Some ds \<longrightarrow> length (ds k) = 4)"
proof (intro conjI allI impI)
  show "\<exists>r. parallel_train cfg kf ck order batches = Some r \<and>
         filter is_update (p_trace (final_state r)) = []"
    using parallel_setup_cases [of kf cfg ck]
    by (cases "parallel_dataset (current_cluster_size kf) (current_rank kf) (p_batch_size cfg) order")
       (auto simp: parallel_train_def parallel_loop_raises initial_parallel_state_def)
next
  assume a: "current_rank kf < current_cluster_size kf \<and> p_batch_size cfg \<noteq> 0 \<and>
    shard (current_cluster_size kf) (current_rank kf) (order 0) \<noteq> []"
  with parallel_setup_cases [of kf cfg ck] obtain st where
    st: "parallel_setup cfg kf ck = Inr st" "step_name st = PyInt 900000" by auto
  from a obtain ds where
    ds: "parallel_dataset (current_cluster_size kf) (current_rank kf) (p_batch_size cfg) order = Some ds"
    by (auto simp: parallel_dataset_def)
  have "parallel_train cfg kf ck order batches = Some (Inl (ValueError, st))"
    using a by (simp add: parallel_train_def st(1) ds parallel_loop_raises [OF ds])
  with st(2) show "\<exists>st. parallel_train cfg kf ck order batches = Some (Inl (ValueError, st)) \<and>
            step_name st = PyInt 900000 \<and>
            (\<forall>b is_first_batch. one_step b is_first_batch st = Inl (AttributeError, st))"
    by (auto simp: one_step_rebound)
next
  fix ds k
  assume "parallel_dataset (current_cluster_size kf) (current_rank kf) (p_batch_size cfg) order = Some ds"
  from parallel_dataset_elements [OF this, of k] show "length (ds k) = 4"
    by (simp add: batch_element_def)
qed

text \<open>Claim C5 on two workers and four samples.\<close>

theorem parallel_train_raises_first_iteration_witness:
  "current_rank two_workers < current_cluster_size two_workers \<and>
   p_batch_size parallel_scenario \<noteq> 0 \<and>
   shard (current_cluster_size two_workers) (current_rank two_workers) [0, 1, 2, 3 :: nat] \<noteq> [] \<and>
   (\<exists>st. parallel_train parallel_scenario two_workers NothingToRestore (\<lambda>p. [0, 1, 2, 3 :: nat])
            (\<lambda>k. unit_batch) = Some (Inl (ValueError, st)) \<and>
         step_name st = PyInt 900000 \<and>
         one_step unit_batch False st = Inl (AttributeError, st))"
proof -
  have h: "current_rank two_workers < current_cluster_size two_workers \<and>
      p_batch_size parallel_scenario \<noteq> 0 \<and>
      shard (current_cluster_size two_workers) (current_rank two_workers) [0, 1, 2, 3 :: nat] \<noteq> []"
    by (simp add: two_workers_def parallel_scenario_def shard_def upt_rec)
  with parallel_train_raises_first_iteration
         [of parallel_scenario two_workers NothingToRestore "\<lambda>p. [0, 1, 2, 3 :: nat]" "\<lambda>k. unit_batch"]
  show ?thesis by auto
qed

lemma parallel_train_never_broadcasts:
  "\<exists>r. parallel_train cfg kf ck order batches = Some r \<and>
       filter is_broadcast (p_trace (final_state r)) = []"
  using parallel_setup_cases [of kf cfg ck]
  by (cases "parallel_dataset (current_cluster_size kf) (current_rank kf) (p_batch_size cfg) order")
     (auto simp: parallel_train_def parallel_loop_raises initial_parallel_state_def)

lemma first_batch_flag_is_false:
  "parallel_setup cfg kf ck = Inr st \<Longrightarrow> step_value st = 900000"
  using parallel_setup_cases [of kf cfg ck] by (auto simp: step_value_def)

text \<open>
  Claim C4 (the first step of a fresh multi-worker process broadcasts all weights and the
  optimizer state, exactly once), evaluated on two workers and four samples: the run ends
  with no broadcast in its effects, and the flag \<open>step == 0\<close> that \<open>one_step\<close> would
  receive is false in the state the set-up leaves, where \<open>step\<close> is 900000.
\<close>

theorem no_broadcast_on_first_step:
  "(case parallel_train parallel_scenario two_workers NothingToRestore (\<lambda>p. [0, 1, 2, 3 :: nat])
           (\<lambda>k. unit_batch) of
      None \<Rightarrow> False
    | Some r \<Rightarrow> filter is_broadcast (p_trace (final_state r)) = []) \<and>
   (case parallel_setup parallel_scenario two_workers NothingToRestore of
      Inl e \<Rightarrow> False
    | Inr st \<Rightarrow> step_value st = 900000 \<and> (step_value st = 0) = False)"
proof (rule conjI)
  from parallel_train_never_broadcasts
    [of parallel_scenario two_workers NothingToRestore "\<lambda>p. [0, 1, 2, 3 :: nat]" "\<lambda>k. unit_batch"]
  show "case parallel_train parallel_scenario two_workers NothingToRestore (\<lambda>p. [0, 1, 2, 3 :: nat])
           (\<lambda>k. unit_batch) of
      None \<Rightarrow> False
    | Some r \<Rightarrow> filter is_broadcast (p_trace (final_state r)) = []"
    by auto
next
  have "current_cluster_size two_workers \<noteq> 0" by (simp add: two_workers_def)
  with parallel_setup_cases [of two_workers parallel_scenario NothingToRestore]
  obtain st where st: "parallel_setup parallel_scenario two_workers NothingToRestore = Inr st"
    by auto
  from first_batch_flag_is_false [OF st] st
  show "case parallel_setup parallel_scenario two_workers NothingToRestore of
      Inl e \<Rightarrow> False
    | Inr st \<Rightarrow> step_value st = 900000 \<and> (step_value st = 0) = False"
    by simp
qed

section \<open>The default mask\<close>

lemma scale_pixel_one [simp]: "scale_pixel px (Suc 0) = px"
  by (cases px) (simp add: scale_pixel_def)

lemma row_times_ones:
  "collect (map2 (\<lambda>px m. Inr (scale_pixel px m)) row (map (\<lambda>px. Suc 0) row)) = Inr row"
  by (induction row) simp_all

lemma broadcast_row_ones:
  "broadcast_axis (\<lambda>px m. Inr (scale_pixel px m)) row (map (\<lambda>px. Suc 0) row) = Inr row"
  by (simp add: broadcast_axis_def row_times_ones)

lemma image_times_ones:
  "collect (map2 (broadcast_axis (\<lambda>px m. Inr (scale_pixel px m))) img (map (map (\<lambda>px. Suc 0)) img))
     = Inr img"
  by (induction img) (simp_all add: broadcast_row_ones)

lemma mask_multiply_ones: "mask_multiply img (ones_like_channel0 img) = Inr img"
  by (simp add: mask_multiply_def ones_like_channel0_def broadcast_axis_def image_times_ones)

text \<open>
  Claim C7: for an absent and for a malformed mask the mask used is the all-ones array of
  the image's spatial shape; multiplying the image by it returns the image unchanged; the
  call equals the call on the explicit all-ones mask, so the mask adds no exception; and
  with an augmentor that returns its inputs the function returns the image as it came.
\<close>

theorem missing_mask_defaults_to_ones:
  "mask_or_default img AbsentMask = ones_like_channel0 img \<and>
   mask_or_default img MalformedMask = ones_like_channel0 img \<and>
   length (ones_like_channel0 img) = length img \<and>
   map length (ones_like_channel0 img) = map length img \<and>
   list_all (list_all (\<lambda>m. m = 1)) (ones_like_channel0 img) \<and>
   mask_multiply img (ones_like_channel0 img) = Inr img \<and>
   data_aug_fn augmentor preprocessor data_format img
       \<lparr>gt_kpt = annos, gt_labeled = l, gt_mask = AbsentMask\<rparr> =
     data_aug_fn augmentor preprocessor data_format img
       \<lparr>gt_kpt = annos, gt_labeled = l, gt_mask = EncodedMask (ones_like_channel0 img)\<rparr> \<and>
   data_aug_fn augmentor preprocessor data_format img
       \<lparr>gt_kpt = annos, gt_labeled = l, gt_mask = MalformedMask\<rparr> =
     data_aug_fn augmentor preprocessor data_format img
       \<lparr>gt_kpt = annos, gt_labeled = l, gt_mask = EncodedMask (ones_like_channel0 img)\<rparr> \<and>
   data_aug_fn (\<lambda>i a m. (i, a, m)) preprocessor ''channels_first'' img
       \<lparr>gt_kpt = annos, gt_labeled = l, gt_mask = AbsentMask\<rparr> =
     Inr \<lparr>out_image = image_chw img, out_mask = mask_chw (ones_like_channel0 img),
          target_x = preprocessor annos (mask_hwc (ones_like_channel0 img)), out_labeled = l\<rparr>"
proof (intro conjI)
  show "list_all (list_all (\<lambda>m. m = 1)) (ones_like_channel0 img)"
    by (simp add: ones_like_channel0_def list_all_iff)
qed (simp_all add: mask_or_default_def decode_mask_def ones_like_channel0_def [symmetric]
       data_aug_fn_def mask_multiply_ones Let_def,
     simp_all add: ones_like_channel0_def comp_def)

section \<open>Shards\<close>

text \<open>
  Shards of one common order partition it: they cover the dataset, and for distinct
  samples they are pairwise disjoint.
\<close>

lemma set_shard:
  "set (shard n r xs) = {xs ! i | i. i < length xs \<and> i mod n = r}"
  by (auto simp: shard_def)

lemma shard_cover:
  assumes "0 < n"
  shows "(\<Union>r \<in> {..<n}. set (shard n r xs)) = set xs"
proof
  show "(\<Union>r \<in> {..<n}. set (shard n r xs)) \<subseteq> set xs"
    by (auto simp: set_shard)
  show "set xs \<subseteq> (\<Union>r \<in> {..<n}. set (shard n r xs))"
  proof
    fix x assume "x \<in> set xs"
    then obtain i where i: "i < length xs" "xs ! i = x" by (auto simp: in_set_conv_nth)
    have "i mod n < n" using assms by simp
    with i show "x \<in> (\<Union>r \<in> {..<n}. set (shard n r xs))"
      by (auto simp: set_shard intro!: bexI [of _ "i mod n"])
  qed
qed

lemma shard_disjoint:
  assumes "distinct xs" and "r \<noteq> r'"
  shows "set (shard n r xs) \<inter> set (shard n r' xs) = {}"
  using assms by (auto simp: set_shard nth_eq_iff_index_eq)

text \<open>
  Claim C8 (the workers' shards are pairwise disjoint and cover the dataset), on two
  workers and the samples 0 and 1: each worker shards the order its own unseeded shuffle
  drew. When worker 0 draws \<open>[0, 1]\<close> and worker 1 draws \<open>[1, 0]\<close>, both shards are
  \<open>[0]\<close>: sample 0 is in both, sample 1 in neither, and both workers' first batch is
  sample 0.
\<close>

theorem shuffled_shards_overlap:
  "shard 2 0 [0, 1 :: nat] = [0] \<and> shard 2 1 [1, 0 :: nat] = [0] \<and>
   set (shard 2 0 [0, 1 :: nat]) \<inter> set (shard 2 1 [1, 0 :: nat]) = {0} \<and>
   set (shard 2 0 [0, 1 :: nat]) \<union> set (shard 2 1 [1, 0 :: nat]) \<noteq> set [0, 1 :: nat] \<and>
   (case parallel_dataset 2 0 1 (\<lambda>p. [0, 1 :: nat]) of
      None \<Rightarrow> False | Some ds \<Rightarrow> ds 0 = batch_element [0]) \<and>
   (case parallel_dataset 2 1 1 (\<lambda>p. [1, 0 :: nat]) of
      None \<Rightarrow> False | Some ds \<Rightarrow> ds 0 = batch_element [0])"
  by (simp add: shard_def upt_rec parallel_dataset_def sample_at_def)

section \<open>Losses and updates of a step\<close>

lemma optimize_step_plain_updates:
  "filter is_update (trace (apply_gradients Opt ModelWeights loss st)) =
     filter is_update (trace st) @ [ApplyGradients Opt ModelWeights loss (save_lr st)]"
  by simp

lemma no_discriminator_file_step:
  assumes "\<not> domainadapt_flag cfg"
  shows "SaveWeights DiscriminatorNpz \<in> set (trace (periodic_save cfg (periodic_vis cfg (periodic_log cfg
            (apply_gradients opt w loss st)))))
         \<longleftrightarrow> SaveWeights DiscriminatorNpz \<in> set (trace st)"
  using assms by (simp add: periodic_save_def periodic_vis_def periodic_log_def Let_def)

lemma no_discriminator_file_loop:
  assumes "\<not> domainadapt_flag cfg"
  shows "\<exists>st'. repeat_steps n (train_iteration cfg batches) st = Inr st' \<and>
           (SaveWeights DiscriminatorNpz \<in> set (trace st') \<longleftrightarrow>
            SaveWeights DiscriminatorNpz \<in> set (trace st))"
proof (induction n arbitrary: st)
  case 0
  show ?case by simp
next
  case (Suc n)
  define st1 where "st1 = periodic_save cfg (periodic_vis cfg (periodic_log cfg
       (apply_gradients Opt ModelWeights (cal_loss (batches (pulled st)))
          (st\<lparr>step := step st + 1, pulled := Suc (pulled st),
              lr := (if step st + 1 \<in> set lr_decay_steps then spec_lr cfg (step st + 1) else lr st)\<rparr>))))"
  have run: "train_iteration cfg batches st = Inr st1"
    unfolding st1_def by (rule train_iteration_plain [OF assms])
  have keep: "SaveWeights DiscriminatorNpz \<in> set (trace st1) \<longleftrightarrow>
      SaveWeights DiscriminatorNpz \<in> set (trace st)"
    unfolding st1_def by (subst no_discriminator_file_step [OF assms]) simp
  from Suc.IH [of st1] obtain st' where
    "repeat_steps n (train_iteration cfg batches) st1 = Inr st'"
    "SaveWeights DiscriminatorNpz \<in> set (trace st') \<longleftrightarrow> SaveWeights DiscriminatorNpz \<in> set (trace st1)"
    by auto
  with run keep show ?case by simp
qed

lemma restore_ckpt_trace:
  "SaveWeights DiscriminatorNpz \<in> set (trace (restore_ckpt flag r st)) \<longleftrightarrow>
     SaveWeights DiscriminatorNpz \<in> set (trace st)"
  "filter is_update (trace (restore_ckpt flag r st)) = filter is_update (trace st)"
  "pulled (restore_ckpt flag r st) = pulled st"
  by (cases r; simp add: restore_ckpt_def Let_def)+

lemma load_weights_trace:
  "SaveWeights DiscriminatorNpz \<in> set (trace (load_weights cfg d st)) \<longleftrightarrow>
     SaveWeights DiscriminatorNpz \<in> set (trace st)"
  "filter is_update (trace (load_weights cfg d st)) = filter is_update (trace st)"
  by (simp_all add: load_weights_def Let_def)

lemma startup_trace_logs:
  "SaveWeights DiscriminatorNpz \<notin> set (trace (startup cfg d))"
  by (simp add: startup_def Let_def load_weights_trace restore_ckpt_trace initial_state_def)

lemma startup_no_updates:
  "filter is_update (trace (startup cfg d)) = [] \<and> pulled (startup cfg d) = 0"
  by (simp add: startup_def Let_def load_weights_trace restore_ckpt_trace initial_state_def)

lemma no_discriminator_file:
  assumes "\<not> domainadapt_flag cfg"
  shows "SaveWeights DiscriminatorNpz \<notin> set (trace (final_state (single_train cfg datasize d batches)))"
proof (cases "batch_size cfg = 0 \<or> datasize div batch_size cfg = 0")
  case True
  then show ?thesis
    by (auto simp: single_train_def initial_state_def Let_def)
next
  case False
  then have run: "single_train cfg datasize d batches =
     repeat_steps
       (nat (n_step cfg div int (datasize div batch_size cfg)
             - (step (startup cfg d) div int (datasize div batch_size cfg) + 1))
        * (datasize div batch_size cfg))
       (train_iteration cfg batches) (startup cfg d)"
    by (simp add: single_train_unfold)
  from no_discriminator_file_loop [OF assms] startup_trace_logs [of cfg d]
  show ?thesis unfolding run by (metis final_state_simps(2))
qed

lemma updates_follow_batches_loop:
  assumes "\<not> domainadapt_flag cfg"
  shows "map optimized_loss (filter is_update (trace st)) = map (\<lambda>k. cal_loss (batches k)) [0..<pulled st]
    \<Longrightarrow> \<exists>st'. repeat_steps n (train_iteration cfg batches) st = Inr st' \<and>
           map optimized_loss (filter is_update (trace st')) =
             map (\<lambda>k. cal_loss (batches k)) [0..<pulled st']"
proof (induction n arbitrary: st)
  case 0
  then show ?case by simp
next
  case (Suc n)
  define st1 where "st1 = periodic_save cfg (periodic_vis cfg (periodic_log cfg
       (apply_gradients Opt ModelWeights (cal_loss (batches (pulled st)))
          (st\<lparr>step := step st + 1, pulled := Suc (pulled st),
              lr := (if step st + 1 \<in> set lr_decay_steps then spec_lr cfg (step st + 1) else lr st)\<rparr>))))"
  have run: "train_iteration cfg batches st = Inr st1"
    unfolding st1_def by (rule train_iteration_plain [OF assms])
  have "map optimized_loss (filter is_update (trace st1)) =
      map (\<lambda>k. cal_loss (batches k)) [0..<pulled st1]"
    using Suc.prems by (simp add: st1_def)
  from Suc.IH [OF this] run show ?case by simp
qed

lemma updates_follow_batches:
  assumes "\<not> domainadapt_flag cfg"
  shows "map optimized_loss (filter is_update (trace (final_state (single_train cfg datasize d batches)))) =
     map (\<lambda>k. cal_loss (batches k)) [0..<pulled (final_state (single_train cfg datasize d batches))]"
proof (cases "batch_size cfg = 0 \<or> datasize div batch_size cfg = 0")
  case True
  then show ?thesis
    by (auto simp: single_train_def initial_state_def Let_def)
next
  case False
  then have run: "single_train cfg datasize d batches =
     repeat_steps
       (nat (n_step cfg div int (datasize div batch_size cfg)
             - (step (startup cfg d) div int (datasize div batch_size cfg) + 1))
        * (datasize div batch_size cfg))
       (train_iteration cfg batches) (startup cfg d)"
    by (simp add: single_train_unfold)
  have start: "map optimized_loss (filter is_update (trace (startup cfg d))) =
      map (\<lambda>k. cal_loss (batches k)) [0..<pulled (startup cfg d)]"
    by (simp add: startup_no_updates)
  let ?n = "nat (n_step cfg div int (datasize div batch_size cfg)
             - (step (startup cfg d) div int (datasize div batch_size cfg) + 1))
        * (datasize div batch_size cfg)"
  from updates_follow_batches_loop [OF assms start, of ?n] obtain st' where
    "repeat_steps ?n (train_iteration cfg batches) (startup cfg d) = Inr st'"
    "map optimized_loss (filter is_update (trace st')) =
             map (\<lambda>k. cal_loss (batches k)) [0..<pulled st']"
    by (elim exE conjE) (rule that)
  then show ?thesis unfolding run by simp
qed

lemma parallel_setup_trace:
  "SaveWeights DiscriminatorNpz \<notin> set (p_trace (final_state (parallel_setup cfg kf r)))"
  by (cases r; cases "current_cluster_size kf = 0")
     (simp_all add: parallel_setup_def initial_parallel_state_def Let_def p_emit_def)

lemma parallel_train_outcome:
  "parallel_train cfg kf ck order batches = Some (Inl (InvalidArgumentError, initial_parallel_state cfg)) \<or>
   (\<exists>st e. parallel_setup cfg kf ck = Inr st \<and>
      (parallel_train cfg kf ck order batches = Some (Inr st) \<or>
       parallel_train cfg kf ck order batches = Some (Inl (e, st))))"
proof (cases "current_cluster_size kf = 0 \<or> current_cluster_size kf \<le> current_rank kf
    \<or> p_batch_size cfg = 0")
  case True
  then show ?thesis by (simp add: parallel_train_def)
next
  case False
  then have "current_cluster_size kf \<noteq> 0" by simp
  with parallel_setup_cases [of kf cfg ck] obtain st where
    st: "parallel_setup cfg kf ck = Inr st" by auto
  show ?thesis
  proof (cases "parallel_dataset (current_cluster_size kf) (current_rank kf) (p_batch_size cfg) order")
    case None
    with False st show ?thesis by (simp add: parallel_train_def)
  next
    case (Some ds)
    with False st parallel_loop_raises [OF Some] show ?thesis
      by (simp add: parallel_train_def)
  qed
qed

lemma parallel_train_quiet:
  "\<exists>r. parallel_train cfg kf ck order batches = Some r \<and>
       filter is_update (p_trace (final_state r)) = [] \<and>
       SaveWeights DiscriminatorNpz \<notin> set (p_trace (final_state r))"
proof -
  have init: "p_trace (initial_parallel_state cfg) = []"
    by (simp add: initial_parallel_state_def)
  have quiet: "parallel_setup cfg kf ck = Inr st \<Longrightarrow>
      filter is_update (p_trace st) = [] \<and> SaveWeights DiscriminatorNpz \<notin> set (p_trace st)" for st
    using parallel_setup_cases [of kf cfg ck] parallel_setup_trace [of cfg kf ck] by auto
  from parallel_train_outcome [of cfg kf ck order batches] show ?thesis
  proof (elim disjE exE conjE)
    assume "parallel_train cfg kf ck order batches =
      Some (Inl (InvalidArgumentError, initial_parallel_state cfg))"
    then show ?thesis by (simp add: init)
  next
    fix st e
    assume "parallel_setup cfg kf ck = Inr st" "parallel_train cfg kf ck order batches = Some (Inr st)"
    with quiet show ?thesis by simp
  next
    fix st e
    assume "parallel_setup cfg kf ck = Inr st" "parallel_train cfg kf ck order batches = Some (Inl (e, st))"
    with quiet show ?thesis by simp
  qed
qed

text \<open>
  The sum in \<open>one_step\<close> (lines 421-423), where it runs: on the step variable, a
  binding no state has once \<open>parallel_setup\<close> has returned.
\<close>

lemma one_step_on_variable:
  "step_name pst = StepVariable \<Longrightarrow>
     \<exists>pst'. one_step b fb pst = Inr pst' \<and>
       filter is_update (p_trace pst') =
         filter is_update (p_trace pst) @
           [ApplyGradients Opt ModelWeights (cal_loss b + regulize_loss b) (lr_variable pst)]"
  by (simp add: one_step_def Let_def)



text \<open>
  Claim C9 on the scenario with a weight decay: 95 updates, each along the total 3/2.
\<close>

lemma regularized_run_length:
  "pulled (final_state (single_train regularized_config 20 fresh_disk regularized_batches)) = 95"
  by code_simp


lemma discriminator_optimizer_unused:
  "opt_d_iterations (final_state (optimize_step_on tp flag b st)) = opt_d_iterations st"
  by (cases "tape_gradient tp")
     (auto simp: optimize_step_on_def Let_def apply_gradients_def emit_def tape_gradient_def
        split: sum.splits if_splits)

text \<open>
  Claim C10 (with domain adaptation enabled the step adds the generator-side loss to the
  total and applies a second, independent update to the discriminator through the
  discriminator's own optimizer), evaluated on a batch with labels \<open>[1, 0, 1, 1]\<close>. The
  generator-side loss on \<open>1 - labeled\<close> is added and the model is updated; the second
  \<open>tape.gradient\<close> on the released tape raises RuntimeError, so no discriminator update
  is applied and the run stops at its first step. On a persistent tape the discriminator
  update would be applied by \<open>opt\<close>, the model's optimizer; \<open>opt_d\<close> applies nothing.
\<close>

theorem discriminator_update_not_independent:
  "(case optimize_step True unit_batch (initial_state scenario_config) of
      Inl (e, st) \<Rightarrow>
        e = RuntimeError \<and>
        trace st = [MetricUpdate ''model/adapt_loss'' 1, ApplyGradients Opt ModelWeights 2 1,
                    MetricUpdate ''dis/adapt_loss'' 3] \<and>
        opt_d_iterations st = 0
    | Inr st \<Rightarrow> False) \<and>
   (case optimize_step_on persistent_tape True unit_batch (initial_state scenario_config) of
      Inl e \<Rightarrow> False
    | Inr st \<Rightarrow>
        trace st = [MetricUpdate ''model/adapt_loss'' 1, ApplyGradients Opt ModelWeights 2 1,
                    MetricUpdate ''dis/adapt_loss'' 3,
                    ApplyGradients Opt DiscriminatorWeights 3 1] \<and>
        opt_iterations st = 2 \<and> opt_d_iterations st = 0) \<and>
   (case single_train (scenario_config\<lparr>domainadapt_flag := True\<rparr>) 20 fresh_disk (\<lambda>k. unit_batch) of
      Inl (e, st) \<Rightarrow> e = RuntimeError \<and> step st = 2
    | Inr st \<Rightarrow> False)"
  by code_simp

end
